theory Spec2Isabelle
  imports Complex_Main
begin

section \<open>Differential-pressure flow meters (\<^verbatim>\<open>fluids/flow_meter.py\<close>)\<close>

text \<open>
  The module is a collection of closed-form correlations on Python floats, two dispatchers
  on a meter-type string and a solver that hands a residual to a root finder.

  Conventions of the embedding.
  \<^item> A Python float is a \<^typ>\<open>real\<close>, and a decimal literal of the source is the rational
    number it spells. Rounding, overflow, infinities and NaN of IEEE doubles are outside
    this model: its equations are those of exact real arithmetic.
  \<^item> Two statements of the specification are about the doubles themselves: that exchanging
    two factors of \<^verbatim>\<open>orifice_discharge\<close> leaves its value identical, and that the loss
    coefficient converts back to the discharge coefficient within a tolerance. For these,
    \<^verbatim>\<open>orifice_discharge\<close>, \<^verbatim>\<open>discharge_coefficient_to_K\<close> and
    \<^verbatim>\<open>K_to_discharge_coefficient\<close> are embedded a second time, every operation rounded to
    a double in the source's order (names ending in \<open>_double\<close>).
  \<^item> What raises in Python is a value: a function returns \<open>py_error + 'a\<close>, \<open>Inl\<close> being
    the exception. The explicit \<^verbatim>\<open>raise Exception(...)\<close> statements of the module and the
    exceptions the interpreter raises by itself (division by zero, a power or a logarithm
    outside its real domain, arithmetic on \<^verbatim>\<open>None\<close>, a local variable never bound)
    are all branches of the model, taken in the source's order of evaluation.
  \<^item> A parameter with default \<^verbatim>\<open>None\<close> is an \<open>option\<close>, \<open>None\<close> being the value it has
    when the caller leaves it out. The one numeric default, \<^verbatim>\<open>expansibility=1.0\<close> of
    \<^verbatim>\<open>orifice_discharge\<close>, is an \<open>option\<close> too: there \<open>None\<close> stands for the call that
    omits the argument and the function substitutes \<open>1.0\<close>.
  \<^item> \<^verbatim>\<open>x**n\<close> with a literal natural number \<open>n\<close> is \<open>x ^ n\<close>; every other power goes
    through \<open>fpow\<close>, which has the domain checks of Python's float power.
\<close>

subsection \<open>Exceptions and float primitives\<close>

text \<open>The argument of a raised \<^verbatim>\<open>Exception\<close>: a message, or the built-in constant
  \<^verbatim>\<open>NotImplemented\<close> that two raise statements of the module pass.\<close>

datatype exc_arg = Msg string | NotImplemented

datatype py_error =
    Exception exc_arg
  | TypeError
  | ZeroDivisionError
  | ValueError
  | UnboundLocalError
  | OverflowError

type_synonym 'a res = "py_error + 'a"

definition bindr :: "'a res \<Rightarrow> ('a \<Rightarrow> 'b res) \<Rightarrow> 'b res" where
  "bindr r f = (case r of Inl e \<Rightarrow> Inl e | Inr v \<Rightarrow> f v)"

text \<open>\<^verbatim>\<open>x/y\<close> on floats.\<close>

definition fdiv :: "real \<Rightarrow> real \<Rightarrow> real res" where
  "fdiv x y = (if y = 0 then Inl ZeroDivisionError else Inr (x / y))"

text \<open>\<^verbatim>\<open>x**y\<close> on floats. A negative base with a fractional exponent has no real value:
  Python 2 raises \<^verbatim>\<open>ValueError\<close>, Python 3 continues with a complex number; the model
  has \<open>ValueError\<close> for both.\<close>

definition fpow :: "real \<Rightarrow> real \<Rightarrow> real res" where
  "fpow x y =
     (if y = 0 then Inr 1
      else if x = 0 then (if y < 0 then Inl ZeroDivisionError else Inr 0)
      else if 0 < x then Inr (x powr y)
      else if y = of_int \<lfloor>y\<rfloor> then Inr (x powi \<lfloor>y\<rfloor>)
      else Inl ValueError)"

text \<open>\<^verbatim>\<open>math.log10\<close> and \<^verbatim>\<open>math.acos\<close>.\<close>

definition flog10 :: "real \<Rightarrow> real res" where
  "flog10 x = (if x \<le> 0 then Inl ValueError else Inr (log 10 x))"

definition facos :: "real \<Rightarrow> real res" where
  "facos x = (if x < - 1 \<or> 1 < x then Inl ValueError else Inr (arccos x))"

text \<open>A value that is a float or \<^verbatim>\<open>None\<close>, at its first use in arithmetic: on
  \<^verbatim>\<open>None\<close> Python raises \<^verbatim>\<open>TypeError\<close>.\<close>

definition the_float :: "real option \<Rightarrow> real res" where
  "the_float v = (case v of None \<Rightarrow> Inl TypeError | Some x \<Rightarrow> Inr x)"

subsection \<open>Generic orifice-equation primitives\<close>

text \<open>
  \<^verbatim>\<open>
  def orifice_discharge(D, Do, P1, P2, rho, C, expansibility=1.0):
      dP = P1 - P2
      beta = Do/D
      return (pi*Do*Do/4.)*C*(2*dP*rho)**0.5/(1.0 - beta**4)**0.5*expansibility
  \<close>
\<close>

definition orifice_discharge ::
  "real \<Rightarrow> real \<Rightarrow> real \<Rightarrow> real \<Rightarrow> real \<Rightarrow> real \<Rightarrow> real option \<Rightarrow> real res" where
  "orifice_discharge D Do P1 P2 rho C expansibility =
     (let eps = (case expansibility of None \<Rightarrow> 1.0 | Some e \<Rightarrow> e);
          dP = P1 - P2
      in bindr (fdiv Do D) (\<lambda>beta.
         bindr (fpow (2 * dP * rho) 0.5) (\<lambda>r1.
         bindr (fpow (1.0 - beta ^ 4) 0.5) (\<lambda>r2.
         bindr (fdiv ((pi * Do * Do / 4) * C * r1) r2) (\<lambda>q.
         Inr (q * eps))))))"

text \<open>
  \<^verbatim>\<open>
  def orifice_expansibility(D, Do, P1, P2, k):
      beta = Do/D
      return (1.0 - (0.351 + 0.256*beta**4 + 0.93*beta**8)*(
              1.0 - (P2/P1)**(1./k)))
  \<close>
\<close>

definition orifice_expansibility :: "real \<Rightarrow> real \<Rightarrow> real \<Rightarrow> real \<Rightarrow> real \<Rightarrow> real res" where
  "orifice_expansibility D Do P1 P2 k =
     bindr (fdiv Do D) (\<lambda>beta.
     bindr (fdiv P2 P1) (\<lambda>tau.
     bindr (fdiv 1.0 k) (\<lambda>e.
     bindr (fpow tau e) (\<lambda>p.
     Inr (1.0 - (0.351 + 0.256 * beta ^ 4 + 0.93 * beta ^ 8) * (1.0 - p))))))"

text \<open>
  \<^verbatim>\<open>
  def orifice_expansibility_1989(D, Do, P1, P2, k):
      return 1.0 - (0.41 + 0.35*(Do/D)**4)*(P1 - P2)/(k*P1)
  \<close>
\<close>

definition orifice_expansibility_1989 :: "real \<Rightarrow> real \<Rightarrow> real \<Rightarrow> real \<Rightarrow> real \<Rightarrow> real res" where
  "orifice_expansibility_1989 D Do P1 P2 k =
     bindr (fdiv Do D) (\<lambda>beta.
     bindr (fdiv ((0.41 + 0.35 * beta ^ 4) * (P1 - P2)) (k * P1)) (\<lambda>q.
     Inr (1.0 - q)))"

subsection \<open>Orifice plate: Reader-Harris/Gallagher\<close>

text \<open>
  The tap chain of \<^verbatim>\<open>C_Reader_Harris_Gallagher\<close>, giving \<open>(L1, L2_prime)\<close>:
  \<^verbatim>\<open>
      if taps == 'corner':
          L1, L2_prime = 0.0, 0.0
      elif taps == 'D' or taps == 'D/2':
          L1 = 1.0
          L2_prime = 0.47
      elif taps == 'flange':
          L1 = L2_prime = 0.0254/D
      else:
          raise Exception('Unsupported tap location')
  \<close>
  \<open>taps\<close> is the value the parameter is bound to: a string, or \<^verbatim>\<open>None\<close> as the dispatch
  helper passes it on from the solver's default; \<^verbatim>\<open>None\<close> equals no string. (A call
  that leaves \<^verbatim>\<open>taps\<close> out binds \<^verbatim>\<open>'corner'\<close>, that is \<open>Some ''corner''\<close>.)
\<close>

definition tap_lengths :: "string option \<Rightarrow> real \<Rightarrow> (real \<times> real) res" where
  "tap_lengths taps D =
     (if taps = Some ''corner'' then Inr (0.0, 0.0)
      else if taps = Some ''D'' \<or> taps = Some ''D/2'' then Inr (1.0, 0.47)
      else if taps = Some ''flange'' then bindr (fdiv 0.0254 D) (\<lambda>l. Inr (l, l))
      else Inl (Exception (Msg ''Unsupported tap location'')))"

text \<open>
  \<^verbatim>\<open>
  def C_Reader_Harris_Gallagher(D, Do, rho, mu, m, taps='corner'):
      A_pipe = pi/4.*D*D
      v = m/(A_pipe*rho)
      Re_D = rho*v*D/mu
      beta = Do/D
      <tap chain>
      beta2 = beta*beta
      beta4 = beta2*beta2
      beta8 = beta4*beta4
      A = (19000.0*beta/Re_D)**0.8
      M2_prime = 2*L2_prime/(1.0 - beta)
      delta_C_upstream = ((0.043 + 0.080*exp(-1E1*L1) - 0.123*exp(-7.0*L1))
              *(1.0 - 0.11*A)*beta4/(1.0 - beta4))
      delta_C_downstream = (-0.031*(M2_prime - 0.8*M2_prime**1.1)*beta**1.3
                            *(1.0 + 8*max(log10(3700./Re_D), 0.0)))
      C_inf_C_s = (0.5961 + 0.0261*beta2 - 0.216*beta8
                   + 0.000521*(1E6*beta/Re_D)**0.7
                   + (0.0188 + 0.0063*A)*beta**3.5*(
                   max((1E6/Re_D)**0.3, 22.7 - 4700.0*(Re_D/1E6))))
      C = (C_inf_C_s + delta_C_upstream + delta_C_downstream)
      if D < 0.07112:
          delta_C_diameter = 0.011*(0.75 - beta)*max((2.8 - D/0.0254), 0.0)
          C += delta_C_diameter
      return C
  \<close>
\<close>

definition C_Reader_Harris_Gallagher ::
  "real \<Rightarrow> real \<Rightarrow> real \<Rightarrow> real \<Rightarrow> real \<Rightarrow> string option \<Rightarrow> real res" where
  "C_Reader_Harris_Gallagher D Do rho mu m taps =
     (let A_pipe = pi / 4 * D * D in
      bindr (fdiv m (A_pipe * rho)) (\<lambda>v.
      bindr (fdiv (rho * v * D) mu) (\<lambda>Re_D.
      bindr (fdiv Do D) (\<lambda>beta.
      bindr (tap_lengths taps D) (\<lambda>(L1, L2_prime).
      let beta2 = beta * beta; beta4 = beta2 * beta2; beta8 = beta4 * beta4 in
      bindr (fdiv (19000.0 * beta) Re_D) (\<lambda>a0.
      bindr (fpow a0 0.8) (\<lambda>A.
      bindr (fdiv (2 * L2_prime) (1.0 - beta)) (\<lambda>M2_prime.
      bindr (fdiv ((0.043 + 0.080 * exp (- 10 * L1) - 0.123 * exp (- 7.0 * L1))
                     * (1.0 - 0.11 * A) * beta4) (1.0 - beta4)) (\<lambda>delta_C_upstream.
      bindr (fpow M2_prime 1.1) (\<lambda>M2p.
      bindr (fpow beta 1.3) (\<lambda>b13.
      bindr (fdiv 3700 Re_D) (\<lambda>r0.
      bindr (flog10 r0) (\<lambda>lg.
      let delta_C_downstream =
            - 0.031 * (M2_prime - 0.8 * M2p) * b13 * (1.0 + 8 * max lg 0.0) in
      bindr (fdiv (1000000 * beta) Re_D) (\<lambda>c0.
      bindr (fpow c0 0.7) (\<lambda>c07.
      bindr (fpow beta 3.5) (\<lambda>b35.
      bindr (fdiv 1000000 Re_D) (\<lambda>s0.
      bindr (fpow s0 0.3) (\<lambda>s03.
      let C_inf_C_s = 0.5961 + 0.0261 * beta2 - 0.216 * beta8 + 0.000521 * c07
                      + (0.0188 + 0.0063 * A) * b35
                        * max s03 (22.7 - 4700.0 * (Re_D / 1000000));
          C = C_inf_C_s + delta_C_upstream + delta_C_downstream
      in if D < 0.07112
         then Inr (C + 0.011 * (0.75 - beta) * max (2.8 - D / 0.0254) 0.0)
         else Inr C))))))))))))))))))"

subsection \<open>Discharge and loss coefficient, pressure drop of an orifice\<close>

text \<open>
  \<^verbatim>\<open>
  def discharge_coefficient_to_K(D, Do, C):
      beta = Do/D
      beta2 = beta*beta
      beta4 = beta2*beta2
      return ((1.0 - beta4*(1.0 - C*C))**0.5/(C*beta2) - 1.0)**2
  \<close>
\<close>

definition discharge_coefficient_to_K :: "real \<Rightarrow> real \<Rightarrow> real \<Rightarrow> real res" where
  "discharge_coefficient_to_K D Do C =
     bindr (fdiv Do D) (\<lambda>beta.
     let beta2 = beta * beta; beta4 = beta2 * beta2 in
     bindr (fpow (1.0 - beta4 * (1.0 - C * C)) 0.5) (\<lambda>s.
     bindr (fdiv s (C * beta2)) (\<lambda>q.
     Inr ((q - 1.0) ^ 2))))"

text \<open>
  \<^verbatim>\<open>
  def K_to_discharge_coefficient(D, Do, K):
      beta = Do/D
      beta2 = beta*beta
      beta4 = beta2*beta2
      root_K = K**0.5
      common_term = 2.0*root_K*beta4 + K*beta4
      return (-beta4/(common_term) + 1.0/(common_term))**0.5
  \<close>
\<close>

definition K_to_discharge_coefficient :: "real \<Rightarrow> real \<Rightarrow> real \<Rightarrow> real res" where
  "K_to_discharge_coefficient D Do K =
     bindr (fdiv Do D) (\<lambda>beta.
     let beta2 = beta * beta; beta4 = beta2 * beta2 in
     bindr (fpow K 0.5) (\<lambda>root_K.
     let common_term = 2.0 * root_K * beta4 + K * beta4 in
     bindr (fdiv (- beta4) common_term) (\<lambda>q1.
     bindr (fdiv 1.0 common_term) (\<lambda>q2.
     fpow (q1 + q2) 0.5))))"

text \<open>
  \<^verbatim>\<open>
  def dP_orifice(D, Do, P1, P2, C):
      beta = Do/D
      beta2 = beta*beta
      beta4 = beta2*beta2
      dP = P1 - P2
      delta_w = ((1.0 - beta4*(1.0 - C*C))**0.5 - C*beta2)/(
                 (1.0 - beta4*(1.0 - C*C))**0.5 + C*beta2)*dP
      return delta_w
  \<close>
\<close>

text \<open>\<^verbatim>\<open>differential_pressure_meter_dP\<close> hands its own optional \<^verbatim>\<open>C=None\<close> on to this
  function, so \<open>C\<close> is an \<open>option\<close> here; \<^verbatim>\<open>C*C\<close> is the first arithmetic on it.\<close>

definition dP_orifice :: "real \<Rightarrow> real \<Rightarrow> real \<Rightarrow> real \<Rightarrow> real option \<Rightarrow> real res" where
  "dP_orifice D Do P1 P2 C_arg =
     bindr (fdiv Do D) (\<lambda>beta.
     let beta2 = beta * beta; beta4 = beta2 * beta2; dP = P1 - P2 in
     bindr (the_float C_arg) (\<lambda>C.
     bindr (fpow (1.0 - beta4 * (1.0 - C * C)) 0.5) (\<lambda>s1.
     bindr (fpow (1.0 - beta4 * (1.0 - C * C)) 0.5) (\<lambda>s2.
     bindr (fdiv (s1 - C * beta2) (s2 + C * beta2)) (\<lambda>q.
     Inr (q * dP))))))"

subsection \<open>Flow nozzles\<close>

text \<open>
  \<^verbatim>\<open>
  def nozzle_expansibility(D, Do, P1, P2, k):
      beta = Do/D
      beta2 = beta*beta
      beta4 = beta2*beta2
      tau = P2/P1
      term1 = k*tau**(2.0/k )/(k - 1.0)
      term2 = (1.0 - beta4)/(1.0 - beta4*tau**(2.0/k))
      term3 = (1.0 - tau**((k - 1.0)/k))/(1.0 - tau)
      return (term1*term2*term3)**0.5
  \<close>
\<close>

definition nozzle_expansibility :: "real \<Rightarrow> real \<Rightarrow> real \<Rightarrow> real \<Rightarrow> real \<Rightarrow> real res" where
  "nozzle_expansibility D Do P1 P2 k =
     bindr (fdiv Do D) (\<lambda>beta.
     let beta2 = beta * beta; beta4 = beta2 * beta2 in
     bindr (fdiv P2 P1) (\<lambda>tau.
     bindr (fdiv 2.0 k) (\<lambda>e1.
     bindr (fpow tau e1) (\<lambda>p1.
     bindr (fdiv (k * p1) (k - 1.0)) (\<lambda>term1.
     bindr (fdiv 2.0 k) (\<lambda>e2.
     bindr (fpow tau e2) (\<lambda>p2.
     bindr (fdiv (1.0 - beta4) (1.0 - beta4 * p2)) (\<lambda>term2.
     bindr (fdiv (k - 1.0) k) (\<lambda>e3.
     bindr (fpow tau e3) (\<lambda>p3.
     bindr (fdiv (1.0 - p3) (1.0 - tau)) (\<lambda>term3.
     fpow (term1 * term2 * term3) 0.5)))))))))))"

text \<open>
  \<^verbatim>\<open>
  def C_long_radius_nozzle(D, Do, rho, mu, m):
      A_pipe = pi/4.*D*D
      v = m/(A_pipe*rho)
      Re_D = rho*v*D/mu
      beta = Do/D
      return 0.9965 - 0.00653*beta**0.5*(1E6/Re_D)**0.5
  \<close>
\<close>

definition C_long_radius_nozzle :: "real \<Rightarrow> real \<Rightarrow> real \<Rightarrow> real \<Rightarrow> real \<Rightarrow> real res" where
  "C_long_radius_nozzle D Do rho mu m =
     (let A_pipe = pi / 4 * D * D in
      bindr (fdiv m (A_pipe * rho)) (\<lambda>v.
      bindr (fdiv (rho * v * D) mu) (\<lambda>Re_D.
      bindr (fdiv Do D) (\<lambda>beta.
      bindr (fpow beta 0.5) (\<lambda>b.
      bindr (fdiv 1000000 Re_D) (\<lambda>r0.
      bindr (fpow r0 0.5) (\<lambda>r.
      Inr (0.9965 - 0.00653 * b * r))))))))"

text \<open>
  \<^verbatim>\<open>
  def C_ISA_1932_nozzle(D, Do, rho, mu, m):
      A_pipe = pi/4.*D*D
      v = m/(A_pipe*rho)
      Re_D = rho*v*D/mu
      beta = Do/D
      C = (0.9900 - 0.2262*beta**4.1
           - (0.00175*beta**2 - 0.0033*beta**4.15)*(1E6/Re_D)**1.15)
      return C
  \<close>
\<close>

definition C_ISA_1932_nozzle :: "real \<Rightarrow> real \<Rightarrow> real \<Rightarrow> real \<Rightarrow> real \<Rightarrow> real res" where
  "C_ISA_1932_nozzle D Do rho mu m =
     (let A_pipe = pi / 4 * D * D in
      bindr (fdiv m (A_pipe * rho)) (\<lambda>v.
      bindr (fdiv (rho * v * D) mu) (\<lambda>Re_D.
      bindr (fdiv Do D) (\<lambda>beta.
      bindr (fpow beta 4.1) (\<lambda>b41.
      bindr (fpow beta 4.15) (\<lambda>b415.
      bindr (fdiv 1000000 Re_D) (\<lambda>r0.
      bindr (fpow r0 1.15) (\<lambda>r.
      Inr (0.9900 - 0.2262 * b41 - (0.00175 * beta ^ 2 - 0.0033 * b415) * r)))))))))"

text \<open>
  \<^verbatim>\<open>
  def C_venturi_nozzle(D, Do):
      beta = Do/D
      return 0.9858 - 0.198*beta**4.5
  \<close>
\<close>

definition C_venturi_nozzle :: "real \<Rightarrow> real \<Rightarrow> real res" where
  "C_venturi_nozzle D Do =
     bindr (fdiv Do D) (\<lambda>beta.
     bindr (fpow beta 4.5) (\<lambda>b.
     Inr (0.9858 - 0.198 * b)))"

subsection \<open>Venturi tube pressure drop\<close>

text \<open>The module-level tables (\<^verbatim>\<open>np.array\<close> constants of the source), 46 entries each.\<close>

definition venturi_tube_betas :: "real list" where
  "venturi_tube_betas =
     [0.299160, 0.299470, 0.312390, 0.319010, 0.326580, 0.337290,
      0.342020, 0.347060, 0.359030, 0.365960, 0.372580, 0.384870,
      0.385810, 0.401250, 0.405350, 0.415740, 0.424250, 0.434010,
      0.447880, 0.452590, 0.471810, 0.473090, 0.493540, 0.499240,
      0.516530, 0.523800, 0.537630, 0.548060, 0.556840, 0.573890,
      0.582350, 0.597820, 0.601560, 0.622650, 0.626490, 0.649480,
      0.650990, 0.668700, 0.675870, 0.688550, 0.693180, 0.706180,
      0.713330, 0.723510, 0.749540, 0.749650]"

definition venturi_tube_dP_high :: "real list" where
  "venturi_tube_dP_high =
     [0.164534, 0.164504, 0.163591, 0.163508, 0.163439,
      0.162652, 0.162224, 0.161866, 0.161238, 0.160786,
      0.160295, 0.159280, 0.159193, 0.157776, 0.157467,
      0.156517, 0.155323, 0.153835, 0.151862, 0.151154,
      0.147840, 0.147613, 0.144052, 0.143050, 0.140107,
      0.138981, 0.136794, 0.134737, 0.132847, 0.129303,
      0.127637, 0.124758, 0.124006, 0.119269, 0.118449,
      0.113605, 0.113269, 0.108995, 0.107109, 0.103688,
      0.102529, 0.099567, 0.097791, 0.095055, 0.087681,
      0.087648]"

definition venturi_tube_dP_low :: "real list" where
  "venturi_tube_dP_low =
     [0.089232, 0.089218, 0.088671, 0.088435, 0.088206,
      0.087853, 0.087655, 0.087404, 0.086693, 0.086241,
      0.085813, 0.085142, 0.085102, 0.084446, 0.084202,
      0.083301, 0.082470, 0.081650, 0.080582, 0.080213,
      0.078509, 0.078378, 0.075989, 0.075226, 0.072700,
      0.071598, 0.069562, 0.068128, 0.066986, 0.064658,
      0.063298, 0.060872, 0.060378, 0.057879, 0.057403,
      0.054091, 0.053879, 0.051726, 0.050931, 0.049362,
      0.048675, 0.046522, 0.045381, 0.043840, 0.039913,
      0.039896]"

definition D_bound_venturi_tube :: "real list" where
  "D_bound_venturi_tube = [0.065, 0.5]"

text \<open>
  Modelled from the spec: \<^verbatim>\<open>np.interp\<close> is numpy's, not this repository's. The spec
  describes it as linear interpolation over a one-dimensional table, values outside the
  table's domain clamped to the nearest endpoint. \<open>interp_within x xp fp\<close> finds the
  segment \<open>xp[j] \<le> x < xp[j+1]\<close> of an ascending table from the left and interpolates on
  it, ending on the last ordinate; \<open>np_interp\<close> puts the two clamps in front. The tables
  are meant non-empty and of equal length, as all three calls of the module have them.
\<close>

fun interp_within :: "real \<Rightarrow> real list \<Rightarrow> real list \<Rightarrow> real" where
  "interp_within x (x0 # x1 # xs) (y0 # y1 # ys) =
     (if x < x1 then (y1 - y0) / (x1 - x0) * (x - x0) + y0
      else interp_within x (x1 # xs) (y1 # ys))"
| "interp_within x xp (y0 # ys) = y0"
| "interp_within x xp [] = 0"

definition np_interp :: "real \<Rightarrow> real list \<Rightarrow> real list \<Rightarrow> real" where
  "np_interp x xp fp =
     (if x < hd xp then hd fp
      else if last xp < x then last fp
      else interp_within x xp fp)"

text \<open>
  \<^verbatim>\<open>
  def dP_venturi_tube(D, Do, P1, P2):
      # Effect of Re is not currently included
      beta = Do/D
      epsilon_D65 = np.interp(beta, venturi_tube_betas, venturi_tube_dP_high)
      epsilon_D500 = np.interp(beta, venturi_tube_betas, venturi_tube_dP_low)
      epsilon = np.interp(D, D_bound_venturi_tube, [epsilon_D65, epsilon_D500])
      return epsilon*(P1 - P2)
  \<close>
\<close>

definition dP_venturi_tube :: "real \<Rightarrow> real \<Rightarrow> real \<Rightarrow> real \<Rightarrow> real res" where
  "dP_venturi_tube D Do P1 P2 =
     bindr (fdiv Do D) (\<lambda>beta.
     let epsilon_D65 = np_interp beta venturi_tube_betas venturi_tube_dP_high;
         epsilon_D500 = np_interp beta venturi_tube_betas venturi_tube_dP_low;
         epsilon = np_interp D D_bound_venturi_tube [epsilon_D65, epsilon_D500]
     in Inr (epsilon * (P1 - P2)))"

subsection \<open>Cone meter\<close>

text \<open>
  \<^verbatim>\<open>
  def diameter_ratio_cone_meter(D, Dc):
      D_ratio = Dc/D
      return (1.0 - D_ratio*D_ratio)**0.5

  def cone_meter_expansibility_Stewart(D, Dc, P1, P2, k):
      dP = P1 - P2
      beta = diameter_ratio_cone_meter(D, Dc)
      return 1.0 - (0.649 + 0.696*beta**4)*dP/(k*P1)

  def dP_cone_meter(D, Dc, P1, P2):
      dP = P1 - P2
      beta = diameter_ratio_cone_meter(D, Dc)
      return (1.09 - 0.813*beta)*dP
  \<close>
\<close>

definition diameter_ratio_cone_meter :: "real \<Rightarrow> real \<Rightarrow> real res" where
  "diameter_ratio_cone_meter D Dc =
     bindr (fdiv Dc D) (\<lambda>D_ratio. fpow (1.0 - D_ratio * D_ratio) 0.5)"

definition cone_meter_expansibility_Stewart ::
  "real \<Rightarrow> real \<Rightarrow> real \<Rightarrow> real \<Rightarrow> real \<Rightarrow> real res" where
  "cone_meter_expansibility_Stewart D Dc P1 P2 k =
     (let dP = P1 - P2 in
      bindr (diameter_ratio_cone_meter D Dc) (\<lambda>beta.
      bindr (fdiv ((0.649 + 0.696 * beta ^ 4) * dP) (k * P1)) (\<lambda>q.
      Inr (1.0 - q))))"

definition dP_cone_meter :: "real \<Rightarrow> real \<Rightarrow> real \<Rightarrow> real \<Rightarrow> real res" where
  "dP_cone_meter D Dc P1 P2 =
     (let dP = P1 - P2 in
      bindr (diameter_ratio_cone_meter D Dc) (\<lambda>beta.
      Inr ((1.09 - 0.813 * beta) * dP)))"

subsection \<open>Wedge meter\<close>

text \<open>
  Modelled from the spec: \<^verbatim>\<open>inch\<close> is imported from \<^verbatim>\<open>scipy.constants\<close>, which is not
  part of this repository; the spec gives one inch as 0.0254 m exactly.
\<close>

definition inch :: real where
  "inch = 0.0254"

text \<open>
  \<^verbatim>\<open>
  def diameter_ratio_wedge_meter(D, H):
      H_D = H/D
      t0 = 1.0 - 2.0*H_D
      t1 = acos(t0)
      t2 = 2.0*(t0)
      t3 = (H_D - H_D*H_D)**0.5
      t4 = t1 - t2*t3
      return (1./pi*t4)**0.5

  def C_wedge_meter_Miller(D, H):
      beta = diameter_ratio_wedge_meter(D, H)
      if D <= 0.7*inch:
          C = 0.7883 + 0.107*(1 - beta*beta)
      elif D <= 1.4*inch:
          C = 0.6143 + 0.718*(1 - beta*beta)
      else:
          C = 0.5433 + 0.2453*(1 - beta*beta)
      return C
  \<close>
\<close>

definition diameter_ratio_wedge_meter :: "real \<Rightarrow> real \<Rightarrow> real res" where
  "diameter_ratio_wedge_meter D H =
     bindr (fdiv H D) (\<lambda>H_D.
     let t0 = 1.0 - 2.0 * H_D in
     bindr (facos t0) (\<lambda>t1.
     let t2 = 2.0 * t0 in
     bindr (fpow (H_D - H_D * H_D) 0.5) (\<lambda>t3.
     let t4 = t1 - t2 * t3 in
     fpow (1 / pi * t4) 0.5)))"

definition C_wedge_meter_Miller :: "real \<Rightarrow> real \<Rightarrow> real res" where
  "C_wedge_meter_Miller D H =
     bindr (diameter_ratio_wedge_meter D H) (\<lambda>beta.
     if D \<le> 0.7 * inch then Inr (0.7883 + 0.107 * (1 - beta * beta))
     else if D \<le> 1.4 * inch then Inr (0.6143 + 0.718 * (1 - beta * beta))
     else Inr (0.5433 + 0.2453 * (1 - beta * beta)))"

subsection \<open>Meter types and the dispatch helper\<close>

definition ISO_5167_ORIFICE :: string where
  "ISO_5167_ORIFICE = ''ISO 5167 orifice''"

definition LONG_RADIUS_NOZZLE :: string where
  "LONG_RADIUS_NOZZLE = ''long radius nozzle''"

definition ISA_1932_NOZZLE :: string where
  "ISA_1932_NOZZLE = ''ISA 1932 nozzle''"

definition VENTURI_NOZZLE :: string where
  "VENTURI_NOZZLE = ''venuri nozzle''"

definition AS_CAST_VENTURI_TUBE :: string where
  "AS_CAST_VENTURI_TUBE = ''as cast convergent venturi tube''"

definition MACHINED_CONVERGENT_VENTURI_TUBE :: string where
  "MACHINED_CONVERGENT_VENTURI_TUBE = ''machined convergent venturi tube''"

definition ROUGH_WELDED_CONVERGENT_VENTURI_TUBE :: string where
  "ROUGH_WELDED_CONVERGENT_VENTURI_TUBE = ''rough welded convergent venturi tube''"

definition CONE_METER :: string where
  "CONE_METER = ''cone meter''"

definition WEDGE_METER :: string where
  "WEDGE_METER = ''wedge meter''"

definition CONE_METER_C :: real where
  "CONE_METER_C = 0.82"

definition ROUGH_WELDED_CONVERGENT_VENTURI_TUBE_C :: real where
  "ROUGH_WELDED_CONVERGENT_VENTURI_TUBE_C = 0.985"

definition MACHINED_CONVERGENT_VENTURI_TUBE_C :: real where
  "MACHINED_CONVERGENT_VENTURI_TUBE_C = 0.995"

definition AS_CAST_VENTURI_TUBE_C :: real where
  "AS_CAST_VENTURI_TUBE_C = 0.984"

text \<open>
  \<^verbatim>\<open>
  def _differential_pressure_C_epsilon(D, D2, m, P1, P2, rho, mu, k, meter_type,
                                       taps=None):
      if meter_type == ISO_5167_ORIFICE:
          C = C_Reader_Harris_Gallagher(D=D, Do=D2, rho=rho, mu=mu, m=m, taps=taps)
          epsilon = orifice_expansibility(D=D, Do=D2, P1=P1, P2=P2, k=k)
      elif meter_type == LONG_RADIUS_NOZZLE:
          epsilon = nozzle_expansibility(D=D, Do=D2, P1=P1, P2=P2, k=k)
          C = C_long_radius_nozzle(D=D, Do=D2, rho=rho, mu=mu, m=m)
      elif meter_type == ISA_1932_NOZZLE:
          epsilon = nozzle_expansibility(D=D, Do=D2, P1=P1, P2=P2, k=k)
          C = C_ISA_1932_nozzle(D=D, Do=D2, rho=rho, mu=mu, m=m)
      elif meter_type == VENTURI_NOZZLE:
          epsilon = nozzle_expansibility(D=D, Do=D2, P1=P1, P2=P2, k=k)
          C = C_venturi_nozzle(D=D, Do=D2)
      elif meter_type == AS_CAST_VENTURI_TUBE:
          epsilon = nozzle_expansibility(D=D, Do=D2, P1=P1, P2=P2, k=k)
          C = AS_CAST_VENTURI_TUBE_C
      elif meter_type == MACHINED_CONVERGENT_VENTURI_TUBE:
          epsilon = nozzle_expansibility(D=D, Do=D2, P1=P1, P2=P2, k=k)
          C = MACHINED_CONVERGENT_VENTURI_TUBE_C
      elif meter_type == ROUGH_WELDED_CONVERGENT_VENTURI_TUBE:
          epsilon = nozzle_expansibility(D=D, Do=D2, P1=P1, P2=P2, k=k)
          C = ROUGH_WELDED_CONVERGENT_VENTURI_TUBE_C
      elif meter_type == CONE_METER:
          epsilon = cone_meter_expansibility_Stewart(D=D, Dc=D2, P1=P1, P2=P2, k=k)
          C = CONE_METER_C
      elif meter_type == WEDGE_METER:
          epsilon = orifice_expansibility_1989(D=D, Do=D2, P1=P1, P2=P2, k=k)
          C = C_wedge_meter_Miller(D=D, H=D2)
      return epsilon, C
  \<close>
  The leading underscore of the name is dropped. With no branch taken, \<^verbatim>\<open>epsilon\<close> is
  unbound at the \<^verbatim>\<open>return\<close>. The pair is returned as \<open>(epsilon, C)\<close>.
\<close>

definition differential_pressure_C_epsilon ::
  "real \<Rightarrow> real \<Rightarrow> real \<Rightarrow> real \<Rightarrow> real \<Rightarrow> real \<Rightarrow> real \<Rightarrow> real \<Rightarrow> string \<Rightarrow> string option
     \<Rightarrow> (real \<times> real) res" where
  "differential_pressure_C_epsilon D D2 m P1 P2 rho mu k meter_type taps =
     (if meter_type = ISO_5167_ORIFICE then
        bindr (C_Reader_Harris_Gallagher D D2 rho mu m taps) (\<lambda>C.
        bindr (orifice_expansibility D D2 P1 P2 k) (\<lambda>epsilon. Inr (epsilon, C)))
      else if meter_type = LONG_RADIUS_NOZZLE then
        bindr (nozzle_expansibility D D2 P1 P2 k) (\<lambda>epsilon.
        bindr (C_long_radius_nozzle D D2 rho mu m) (\<lambda>C. Inr (epsilon, C)))
      else if meter_type = ISA_1932_NOZZLE then
        bindr (nozzle_expansibility D D2 P1 P2 k) (\<lambda>epsilon.
        bindr (C_ISA_1932_nozzle D D2 rho mu m) (\<lambda>C. Inr (epsilon, C)))
      else if meter_type = VENTURI_NOZZLE then
        bindr (nozzle_expansibility D D2 P1 P2 k) (\<lambda>epsilon.
        bindr (C_venturi_nozzle D D2) (\<lambda>C. Inr (epsilon, C)))
      else if meter_type = AS_CAST_VENTURI_TUBE then
        bindr (nozzle_expansibility D D2 P1 P2 k) (\<lambda>epsilon.
        Inr (epsilon, AS_CAST_VENTURI_TUBE_C))
      else if meter_type = MACHINED_CONVERGENT_VENTURI_TUBE then
        bindr (nozzle_expansibility D D2 P1 P2 k) (\<lambda>epsilon.
        Inr (epsilon, MACHINED_CONVERGENT_VENTURI_TUBE_C))
      else if meter_type = ROUGH_WELDED_CONVERGENT_VENTURI_TUBE then
        bindr (nozzle_expansibility D D2 P1 P2 k) (\<lambda>epsilon.
        Inr (epsilon, ROUGH_WELDED_CONVERGENT_VENTURI_TUBE_C))
      else if meter_type = CONE_METER then
        bindr (cone_meter_expansibility_Stewart D D2 P1 P2 k) (\<lambda>epsilon.
        Inr (epsilon, CONE_METER_C))
      else if meter_type = WEDGE_METER then
        bindr (orifice_expansibility_1989 D D2 P1 P2 k) (\<lambda>epsilon.
        bindr (C_wedge_meter_Miller D D2) (\<lambda>C. Inr (epsilon, C)))
      else Inl UnboundLocalError)"

subsection \<open>The solver and the pressure-drop dispatcher\<close>

text \<open>
  The residual closure, textually the same in all four branches of the solver:
  \<^verbatim>\<open>
      def to_solve(<unknown>):
          C, epsilon = _differential_pressure_C_epsilon(D, D2, m, P1, P2, rho,
                                                        mu, k, meter_type,
                                                        taps=taps)
          m_calc = orifice_discharge(D=D, Do=D2, P1=P1, P2=P2, rho=rho,
                                      C=C, expansibility=epsilon)
          return m - m_calc
  \<close>
  The tuple pattern binds the helper's first component to \<^verbatim>\<open>C\<close> and its second to
  \<^verbatim>\<open>epsilon\<close>, as written. \<open>m\<close> is a float in every branch (the trial value, or the
  argument already tested not to be \<^verbatim>\<open>None\<close>), while \<open>D2\<close>, \<open>P1\<close> and \<open>P2\<close> are the
  variables the closure captures and may be \<^verbatim>\<open>None\<close> when the caller left several
  arguments out. The helper then runs until its first arithmetic on a \<^verbatim>\<open>None\<close>;
  \<open>C_epsilon_on_None\<close> is the exception it ends in, branch by branch:
  \<^item> orifice: \<^verbatim>\<open>C_Reader_Harris_Gallagher\<close> is called first. With \<open>D2\<close> absent it computes
    \<^verbatim>\<open>v\<close> and \<^verbatim>\<open>Re_D\<close> and stops at \<^verbatim>\<open>beta = Do/D\<close>; with \<open>D2\<close> present it runs to its
    end, and \<^verbatim>\<open>orifice_expansibility\<close> stops at \<^verbatim>\<open>P2/P1\<close>;
  \<^item> nozzles, venturi tubes and wedge meter: the expansibility formula is called first and
    starts with \<^verbatim>\<open>Do/D\<close>, a \<open>TypeError\<close> for an absent \<open>D2\<close>; otherwise the division is
    done and the next operation, \<^verbatim>\<open>P2/P1\<close> or \<^verbatim>\<open>P1 - P2\<close>, meets the \<^verbatim>\<open>None\<close>;
  \<^item> cone meter: \<^verbatim>\<open>dP = P1 - P2\<close> comes first and \<^verbatim>\<open>Dc/D\<close> next, a \<open>TypeError\<close> in
    both;
  \<^item> any other meter type: no branch is taken and \<^verbatim>\<open>epsilon\<close> is unbound.
\<close>

definition C_epsilon_on_None ::
  "real \<Rightarrow> real option \<Rightarrow> real \<Rightarrow> real \<Rightarrow> real \<Rightarrow> string \<Rightarrow> string option \<Rightarrow> py_error" where
  "C_epsilon_on_None D D2 m rho mu meter_type taps =
     (if meter_type = ISO_5167_ORIFICE then
        (case D2 of
           None \<Rightarrow>
             (case bindr (fdiv m (pi / 4 * D * D * rho)) (\<lambda>v. fdiv (rho * v * D) mu) of
                Inl e \<Rightarrow> e | Inr Re_D \<Rightarrow> TypeError)
         | Some Do \<Rightarrow>
             (case C_Reader_Harris_Gallagher D Do rho mu m taps of
                Inl e \<Rightarrow> e | Inr C \<Rightarrow> TypeError))
      else if meter_type = LONG_RADIUS_NOZZLE \<or> meter_type = ISA_1932_NOZZLE
              \<or> meter_type = VENTURI_NOZZLE \<or> meter_type = AS_CAST_VENTURI_TUBE
              \<or> meter_type = MACHINED_CONVERGENT_VENTURI_TUBE
              \<or> meter_type = ROUGH_WELDED_CONVERGENT_VENTURI_TUBE
              \<or> meter_type = WEDGE_METER then
        (case D2 of
           None \<Rightarrow> TypeError
         | Some Do \<Rightarrow> (case fdiv Do D of Inl e \<Rightarrow> e | Inr beta \<Rightarrow> TypeError))
      else if meter_type = CONE_METER then TypeError
      else UnboundLocalError)"

definition to_solve ::
  "real \<Rightarrow> real option \<Rightarrow> real \<Rightarrow> real option \<Rightarrow> real option \<Rightarrow> real \<Rightarrow> real \<Rightarrow> real
     \<Rightarrow> string \<Rightarrow> string option \<Rightarrow> real res" where
  "to_solve D D2 m P1 P2 rho mu k meter_type taps =
     (case (D2, P1, P2) of
        (Some D2', Some P1', Some P2') \<Rightarrow>
          bindr (differential_pressure_C_epsilon D D2' m P1' P2' rho mu k meter_type taps)
            (\<lambda>(C, epsilon).
          bindr (orifice_discharge D D2' P1' P2' rho C (Some epsilon)) (\<lambda>m_calc.
          Inr (m - m_calc)))
      | _ \<Rightarrow> Inl (C_epsilon_on_None D D2 m rho mu meter_type taps))"

text \<open>
  \<^verbatim>\<open>
  def differential_pressure_meter_solver(D, rho, mu, k, D2=None, P1=None, P2=None,
                                         m=None, meter_type=ISO_5167_ORIFICE,
                                         taps=None):
      if m is None:
          <to_solve(m)>
          return newton(to_solve, 2.81)
      elif D2 is None:
          <to_solve(D2)>
          return brenth(to_solve, D*(1-1E-9), D*5E-3)
      elif P2 is None:
          <to_solve(P2)>
          return brenth(to_solve, P1*(1-1E-9), P1*0.7)
      elif P1 is None:
          <to_solve(P1)>
          return brenth(to_solve, P2*(1+1E-9), P2*1.4)
      else:
          raise Exception('Solver is capable of solving for one of P2, D2, or m only.')
  \<close>
  \<^verbatim>\<open>newton\<close> and \<^verbatim>\<open>brenth\<close> are \<^verbatim>\<open>scipy.optimize\<close>'s root finders; they are the first
  two parameters of the model. The bracket of a \<^verbatim>\<open>brenth\<close> call is computed before the
  call, and \<^verbatim>\<open>P1*(1-1E-9)\<close> on a \<^verbatim>\<open>P1\<close> that is \<^verbatim>\<open>None\<close> raises there.
\<close>

definition differential_pressure_meter_solver ::
  "((real \<Rightarrow> real res) \<Rightarrow> real \<Rightarrow> real res) \<Rightarrow> ((real \<Rightarrow> real res) \<Rightarrow> real \<Rightarrow> real \<Rightarrow> real res)
     \<Rightarrow> real \<Rightarrow> real \<Rightarrow> real \<Rightarrow> real
     \<Rightarrow> real option \<Rightarrow> real option \<Rightarrow> real option \<Rightarrow> real option \<Rightarrow> string \<Rightarrow> string option
     \<Rightarrow> real res" where
  "differential_pressure_meter_solver newton brenth D rho mu k D2 P1 P2 m meter_type taps =
     (case m of
        None \<Rightarrow> newton (\<lambda>x. to_solve D D2 x P1 P2 rho mu k meter_type taps) 2.81
      | Some m' \<Rightarrow>
          (case D2 of
             None \<Rightarrow>
               brenth (\<lambda>x. to_solve D (Some x) m' P1 P2 rho mu k meter_type taps)
                 (D * (1 - 1 / 10 ^ 9)) (D * (5 / 10 ^ 3))
           | Some _ \<Rightarrow>
               (case P2 of
                  None \<Rightarrow>
                    bindr (the_float P1) (\<lambda>P1'.
                    brenth (\<lambda>x. to_solve D D2 m' P1 (Some x) rho mu k meter_type taps)
                      (P1' * (1 - 1 / 10 ^ 9)) (P1' * 0.7))
                | Some P2' \<Rightarrow>
                    (case P1 of
                       None \<Rightarrow>
                         brenth (\<lambda>x. to_solve D D2 m' (Some x) P2 rho mu k meter_type taps)
                           (P2' * (1 + 1 / 10 ^ 9)) (P2' * 1.4)
                     | Some _ \<Rightarrow>
                         Inl (Exception (Msg
                           ''Solver is capable of solving for one of P2, D2, or m only.''))))))"

text \<open>
  \<^verbatim>\<open>
  def differential_pressure_meter_dP(D, D2, P1, P2, C=None,
                                     meter_type=ISO_5167_ORIFICE):
      if meter_type == ISO_5167_ORIFICE:
          dP = dP_orifice(D=D, Do=D2, P1=P1, P2=P2, C=C)
      elif meter_type == LONG_RADIUS_NOZZLE:
          dP = dP_orifice(D=D, Do=D2, P1=P1, P2=P2, C=C)
      elif meter_type == ISA_1932_NOZZLE:
          dP = dP_orifice(D=D, Do=D2, P1=P1, P2=P2, C=C)
      elif meter_type == VENTURI_NOZZLE:
          raise Exception(NotImplemented)
      elif meter_type == AS_CAST_VENTURI_TUBE:
          dP = dP_venturi_tube(D=D, Do=D2, P1=P1, P2=P2)
      elif meter_type == MACHINED_CONVERGENT_VENTURI_TUBE:
          dP = dP_venturi_tube(D=D, Do=D2, P1=P1, P2=P2)
      elif meter_type == ROUGH_WELDED_CONVERGENT_VENTURI_TUBE:
          dP = dP_venturi_tube(D=D, Do=D2, P1=P1, P2=P2)
      elif meter_type == CONE_METER:
          dP = dP_cone_meter(D=D, Dc=D2, P1=P1, P2=P2)
      elif meter_type == WEDGE_METER:
          raise Exception(NotImplemented)
      return dP
  \<close>
\<close>

definition differential_pressure_meter_dP ::
  "real \<Rightarrow> real \<Rightarrow> real \<Rightarrow> real \<Rightarrow> real option \<Rightarrow> string \<Rightarrow> real res" where
  "differential_pressure_meter_dP D D2 P1 P2 C meter_type =
     (if meter_type = ISO_5167_ORIFICE then dP_orifice D D2 P1 P2 C
      else if meter_type = LONG_RADIUS_NOZZLE then dP_orifice D D2 P1 P2 C
      else if meter_type = ISA_1932_NOZZLE then dP_orifice D D2 P1 P2 C
      else if meter_type = VENTURI_NOZZLE then Inl (Exception NotImplemented)
      else if meter_type = AS_CAST_VENTURI_TUBE then dP_venturi_tube D D2 P1 P2
      else if meter_type = MACHINED_CONVERGENT_VENTURI_TUBE then dP_venturi_tube D D2 P1 P2
      else if meter_type = ROUGH_WELDED_CONVERGENT_VENTURI_TUBE then dP_venturi_tube D D2 P1 P2
      else if meter_type = CONE_METER then dP_cone_meter D D2 P1 P2
      else if meter_type = WEDGE_METER then Inl (Exception NotImplemented)
      else Inl UnboundLocalError)"

subsection \<open>The orifice equation and the loss coefficient on doubles\<close>

text \<open>Rounding to the nearest integer, a tie going to the even one.\<close>

definition round_half_even :: "real \<Rightarrow> int" where
  "round_half_even q =
     (let f = \<lfloor>q\<rfloor>; r = q - of_int f
      in if r < 1 / 2 then f else if 1 / 2 < r then f + 1 else if even f then f else f + 1)"

text \<open>The IEEE 754 double nearest to a real number (round to nearest, ties to even): a
  significand of 53 bits at the exponent of the number, and multiples of \<open>2 powi - 1074\<close>
  below the smallest normal number \<open>2 powi - 1022\<close>. The exponent is not bounded above: a
  result of magnitude \<open>2 ^ 1024\<close> or more is not a double, and it is the operation that says what
  happens then. Signed zeros, infinities and NaN are not values of this model.\<close>

definition round_double :: "real \<Rightarrow> real" where
  "round_double x =
     (if x = 0 then 0
      else let e = max \<lfloor>log 2 \<bar>x\<bar>\<rfloor> (- 1022) - 52
           in sgn x * of_int (round_half_even (\<bar>x\<bar> / 2 powi e)) * 2 powi e)"

text \<open>\<^verbatim>\<open>x + y\<close>, \<^verbatim>\<open>x - y\<close>, \<^verbatim>\<open>x*y\<close> and \<^verbatim>\<open>x/y\<close> on doubles: the exact result, rounded.
  Python returns \<^verbatim>\<open>inf\<close> where the result is beyond the largest double; such results are
  outside the model.\<close>

definition dadd :: "real \<Rightarrow> real \<Rightarrow> real" where
  "dadd x y = round_double (x + y)"

definition dsub :: "real \<Rightarrow> real \<Rightarrow> real" where
  "dsub x y = round_double (x - y)"

definition dmul :: "real \<Rightarrow> real \<Rightarrow> real" where
  "dmul x y = round_double (x * y)"

definition ddiv :: "real \<Rightarrow> real \<Rightarrow> real res" where
  "ddiv x y = (if y = 0 then Inl ZeroDivisionError else Inr (round_double (x / y)))"

text \<open>\<^verbatim>\<open>x**y\<close> on doubles, also for an integer literal \<open>y\<close>, which Python converts to a
  float first: the domain checks of \<open>fpow\<close>, then the real power rounded, and
  \<^verbatim>\<open>OverflowError\<close> where that is beyond the largest double (the C library reports a
  range error and Python raises). The C library's \<^verbatim>\<open>pow\<close> is taken as correctly rounded;
  C fixes \<^verbatim>\<open>pow(1.0, y)\<close> to be exactly \<open>1.0\<close>.\<close>

definition dpow :: "real \<Rightarrow> real \<Rightarrow> real res" where
  "dpow x y =
     bindr (fpow x y) (\<lambda>v.
       if 2 ^ 1024 \<le> \<bar>round_double v\<bar> then Inl OverflowError else Inr (round_double v))"

text \<open>\<^verbatim>\<open>math.pi\<close>, the double nearest to \<open>\<pi>\<close>: \<^verbatim>\<open>0x1.921fb54442d18p+1\<close>.\<close>

definition math_pi :: real where
  "math_pi = 884279719003555 / 2 ^ 48"

text \<open>\<^verbatim>\<open>orifice_discharge\<close> on doubles. Python multiplies and divides from left to right:
  the return expression is
  \<^verbatim>\<open>((((((pi*Do)*Do)/4.)*C)*((2*dP)*rho)**0.5)/(1.0 - beta**4)**0.5)*expansibility\<close>,
  and every operation rounds. The division by the literal \<^verbatim>\<open>4.\<close> cannot raise.\<close>

definition orifice_discharge_double ::
  "real \<Rightarrow> real \<Rightarrow> real \<Rightarrow> real \<Rightarrow> real \<Rightarrow> real \<Rightarrow> real option \<Rightarrow> real res" where
  "orifice_discharge_double D Do P1 P2 rho C expansibility =
     (let eps = (case expansibility of None \<Rightarrow> 1.0 | Some e \<Rightarrow> e);
          dP = dsub P1 P2
      in bindr (ddiv Do D) (\<lambda>beta.
         let A = round_double (dmul (dmul math_pi Do) Do / 4) in
         bindr (dpow (dmul (dmul 2 dP) rho) 0.5) (\<lambda>r1.
         bindr (dpow beta 4) (\<lambda>b4.
         bindr (dpow (dsub 1.0 b4) 0.5) (\<lambda>r2.
         bindr (ddiv (dmul (dmul A C) r1) r2) (\<lambda>q.
         Inr (dmul q eps)))))))"

text \<open>\<^verbatim>\<open>discharge_coefficient_to_K\<close> and \<^verbatim>\<open>K_to_discharge_coefficient\<close> on doubles.\<close>

definition discharge_coefficient_to_K_double :: "real \<Rightarrow> real \<Rightarrow> real \<Rightarrow> real res" where
  "discharge_coefficient_to_K_double D Do C =
     bindr (ddiv Do D) (\<lambda>beta.
     let beta2 = dmul beta beta; beta4 = dmul beta2 beta2 in
     bindr (dpow (dsub 1.0 (dmul beta4 (dsub 1.0 (dmul C C)))) 0.5) (\<lambda>s.
     bindr (ddiv s (dmul C beta2)) (\<lambda>q.
     dpow (dsub q 1.0) 2)))"

definition K_to_discharge_coefficient_double :: "real \<Rightarrow> real \<Rightarrow> real \<Rightarrow> real res" where
  "K_to_discharge_coefficient_double D Do K =
     bindr (ddiv Do D) (\<lambda>beta.
     let beta2 = dmul beta beta; beta4 = dmul beta2 beta2 in
     bindr (dpow K 0.5) (\<lambda>root_K.
     let common_term = dadd (dmul (dmul 2.0 root_K) beta4) (dmul K beta4) in
     bindr (ddiv (- beta4) common_term) (\<lambda>q1.
     bindr (ddiv 1.0 common_term) (\<lambda>q2.
     dpow (dadd q1 q2) 0.5))))"

subsection \<open>Notions the statements below need\<close>

text \<open>The residual as the spec describes it: the helper's pair is
  \<open>(expansibility, discharge coefficient)\<close>, and each goes to the parameter of
  \<^verbatim>\<open>orifice_discharge\<close> that carries its name.\<close>

definition to_solve_paired ::
  "real \<Rightarrow> real option \<Rightarrow> real \<Rightarrow> real option \<Rightarrow> real option \<Rightarrow> real \<Rightarrow> real \<Rightarrow> real
     \<Rightarrow> string \<Rightarrow> string option \<Rightarrow> real res" where
  "to_solve_paired D D2 m P1 P2 rho mu k meter_type taps =
     (case (D2, P1, P2) of
        (Some D2', Some P1', Some P2') \<Rightarrow>
          bindr (differential_pressure_C_epsilon D D2' m P1' P2' rho mu k meter_type taps)
            (\<lambda>(epsilon, C).
          bindr (orifice_discharge D D2' P1' P2' rho C (Some epsilon)) (\<lambda>m_calc.
          Inr (m - m_calc)))
      | _ \<Rightarrow> Inl (C_epsilon_on_None D D2 m rho mu meter_type taps))"

text \<open>The spec's dispatch table: which expansibility formula and which source of the
  discharge coefficient belong to a meter type.\<close>

definition spec_expansibility ::
  "string \<Rightarrow> real \<Rightarrow> real \<Rightarrow> real \<Rightarrow> real \<Rightarrow> real \<Rightarrow> real res" where
  "spec_expansibility meter_type D D2 P1 P2 k =
     (if meter_type = ISO_5167_ORIFICE then orifice_expansibility D D2 P1 P2 k
      else if meter_type = LONG_RADIUS_NOZZLE \<or> meter_type = ISA_1932_NOZZLE
              \<or> meter_type = VENTURI_NOZZLE \<or> meter_type = AS_CAST_VENTURI_TUBE
              \<or> meter_type = MACHINED_CONVERGENT_VENTURI_TUBE
              \<or> meter_type = ROUGH_WELDED_CONVERGENT_VENTURI_TUBE
           then nozzle_expansibility D D2 P1 P2 k
      else if meter_type = CONE_METER then cone_meter_expansibility_Stewart D D2 P1 P2 k
      else if meter_type = WEDGE_METER then orifice_expansibility_1989 D D2 P1 P2 k
      else Inl UnboundLocalError)"

definition spec_discharge_coefficient ::
  "string \<Rightarrow> real \<Rightarrow> real \<Rightarrow> real \<Rightarrow> real \<Rightarrow> real \<Rightarrow> string option \<Rightarrow> real res" where
  "spec_discharge_coefficient meter_type D D2 rho mu m taps =
     (if meter_type = ISO_5167_ORIFICE then C_Reader_Harris_Gallagher D D2 rho mu m taps
      else if meter_type = LONG_RADIUS_NOZZLE then C_long_radius_nozzle D D2 rho mu m
      else if meter_type = ISA_1932_NOZZLE then C_ISA_1932_nozzle D D2 rho mu m
      else if meter_type = VENTURI_NOZZLE then C_venturi_nozzle D D2
      else if meter_type = AS_CAST_VENTURI_TUBE then Inr 0.984
      else if meter_type = MACHINED_CONVERGENT_VENTURI_TUBE then Inr 0.995
      else if meter_type = ROUGH_WELDED_CONVERGENT_VENTURI_TUBE then Inr 0.985
      else if meter_type = CONE_METER then Inr 0.82
      else if meter_type = WEDGE_METER then C_wedge_meter_Miller D D2
      else Inl UnboundLocalError)"

text \<open>What an exception of the module prints (\<^verbatim>\<open>str(e)\<close>), and whether that text
  contains a given meter-type name.\<close>

fun exc_arg_text :: "exc_arg \<Rightarrow> string" where
  "exc_arg_text (Msg s) = s"
| "exc_arg_text NotImplemented = ''NotImplemented''"

fun starts_with :: "string \<Rightarrow> string \<Rightarrow> bool" where
  "starts_with [] ys = True"
| "starts_with (x # xs) [] = False"
| "starts_with (x # xs) (y # ys) = (x = y \<and> starts_with xs ys)"

fun occurs_in :: "string \<Rightarrow> string \<Rightarrow> bool" where
  "occurs_in xs [] = (xs = [])"
| "occurs_in xs (y # ys) = (starts_with xs (y # ys) \<or> occurs_in xs ys)"

fun names_meter_type :: "py_error \<Rightarrow> string \<Rightarrow> bool" where
  "names_meter_type (Exception a) meter_type = occurs_in meter_type (exc_arg_text a)"
| "names_meter_type e meter_type = False"

text \<open>Stand-ins for the two root finders, for closed statements about the solver: each
  evaluates the residual where the search starts, lets its exception through, and
  gives the starting point back.\<close>

definition newton_first_call :: "(real \<Rightarrow> real res) \<Rightarrow> real \<Rightarrow> real res" where
  "newton_first_call f x0 = bindr (f x0) (\<lambda>y. Inr x0)"

definition brenth_first_call :: "(real \<Rightarrow> real res) \<Rightarrow> real \<Rightarrow> real \<Rightarrow> real res" where
  "brenth_first_call f a b = bindr (f a) (\<lambda>ya. bindr (f b) (\<lambda>yb. Inr a))"

text \<open>The Reader-Harris/Gallagher coefficient as the spec writes it, term by term, for
  given tap lengths \<open>L1\<close> and \<open>L2p\<close> (the spec's \<open>L2'\<close>), in plain real arithmetic.\<close>

definition spec_Re_D :: "real \<Rightarrow> real \<Rightarrow> real \<Rightarrow> real \<Rightarrow> real" where
  "spec_Re_D D rho mu m = rho * (m / (pi / 4 * D * D * rho)) * D / mu"

definition spec_A :: "real \<Rightarrow> real \<Rightarrow> real" where
  "spec_A \<beta> ReD = (19000 * \<beta> / ReD) powr 0.8"

definition spec_delta_C_upstream :: "real \<Rightarrow> real \<Rightarrow> real \<Rightarrow> real" where
  "spec_delta_C_upstream \<beta> ReD L1 =
     (0.043 + 0.080 * exp (- 10 * L1) - 0.123 * exp (- 7 * L1)) * (1 - 0.11 * spec_A \<beta> ReD)
       * \<beta> ^ 4 / (1 - \<beta> ^ 4)"

definition spec_delta_C_downstream :: "real \<Rightarrow> real \<Rightarrow> real \<Rightarrow> real" where
  "spec_delta_C_downstream \<beta> ReD L2p =
     (let M2p = 2 * L2p / (1 - \<beta>) in
      - 0.031 * (M2p - 0.8 * M2p powr 1.1) * \<beta> powr 1.3
        * (1 + 8 * max (log 10 (3700 / ReD)) 0))"

definition spec_C_inf_C_s :: "real \<Rightarrow> real \<Rightarrow> real" where
  "spec_C_inf_C_s \<beta> ReD =
     0.5961 + 0.0261 * \<beta>\<^sup>2 - 0.216 * \<beta> ^ 8 + 0.000521 * (10 ^ 6 * \<beta> / ReD) powr 0.7
       + (0.0188 + 0.0063 * spec_A \<beta> ReD) * \<beta> powr 3.5
         * max ((10 ^ 6 / ReD) powr 0.3) (22.7 - 4700 * (ReD / 10 ^ 6))"

definition spec_C_RHG :: "real \<Rightarrow> real \<Rightarrow> real \<Rightarrow> real \<Rightarrow> real \<Rightarrow> real \<Rightarrow> real \<Rightarrow> real" where
  "spec_C_RHG D Do rho mu m L1 L2p =
     (let \<beta> = Do / D; ReD = spec_Re_D D rho mu m;
          C = spec_C_inf_C_s \<beta> ReD + spec_delta_C_upstream \<beta> ReD L1
                + spec_delta_C_downstream \<beta> ReD L2p
      in if D < 0.07112 then C + 0.011 * (0.75 - \<beta>) * max (2.8 - D / 0.0254) 0 else C)"

text \<open>The Taylor polynomial of the cosine up to \<open>x\<^sup>1\<^sup>2\<close>, in Horner form in \<open>y = x\<^sup>2\<close>; it
  serves to enclose \<open>arccos 0.4\<close> in the wedge-meter example.\<close>

definition cos_poly :: "real \<Rightarrow> real" where
  "cos_poly y =
     1 - y / 2 * (1 - y / 12 * (1 - y / 30 * (1 - y / 56 * (1 - y / 90 * (1 - y / 132)))))"

section \<open>Properties\<close>

subsection \<open>Float primitives\<close>

lemma bindr_Inr [simp]: "bindr (Inr v) f = f v"
  by (simp add: bindr_def)

lemma bindr_Inl [simp]: "bindr (Inl e) f = Inl e"
  by (simp add: bindr_def)

lemma fdiv_ok [simp]: "y \<noteq> 0 \<Longrightarrow> fdiv x y = Inr (x / y)"
  by (simp add: fdiv_def)

lemma fdiv_zero [simp]: "fdiv x 0 = Inl ZeroDivisionError"
  by (simp add: fdiv_def)

lemma half: "(0.5::real) = 1 / 2"
  by simp

lemma fpow_sqrt: "0 \<le> x \<Longrightarrow> fpow x (1 / 2) = Inr (sqrt x)"
  using powr_half_sqrt [of x] by (simp add: fpow_def)

lemma fpow_pos: "0 < x \<Longrightarrow> y \<noteq> 0 \<Longrightarrow> fpow x y = Inr (x powr y)"
  by (simp add: fpow_def)

lemma fpow_nonneg: "0 \<le> x \<Longrightarrow> 0 < y \<Longrightarrow> fpow x y = Inr (x powr y)"
  by (simp add: fpow_def)

lemma flog10_pos: "0 < x \<Longrightarrow> flog10 x = Inr (log 10 x)"
  by (simp add: flog10_def)

lemmas meter_type_defs =
  ISO_5167_ORIFICE_def LONG_RADIUS_NOZZLE_def ISA_1932_NOZZLE_def VENTURI_NOZZLE_def
  AS_CAST_VENTURI_TUBE_def MACHINED_CONVERGENT_VENTURI_TUBE_def
  ROUGH_WELDED_CONVERGENT_VENTURI_TUBE_def CONE_METER_def WEDGE_METER_def

subsection \<open>Rounding to a double\<close>

text \<open>How \<open>round_double\<close> is evaluated: for a positive number the exponent \<open>e\<close> with
  \<open>2 powi e \<le> x < 2 powi (e + 1)\<close> is the one the definition computes.\<close>

lemma round_double_normal:
  assumes "2 powi e \<le> x" and "x < 2 powi (e + 1)" and "- 1022 \<le> e"
  shows "round_double x = of_int (round_half_even (x / 2 powi (e - 52))) * 2 powi (e - 52)"
proof -
  have pos: "0 < x"
    using assms(1) by (smt (verit) zero_less_power_int)
  have "(2::real) powr real_of_int e = 2 powi e" "(2::real) powr (real_of_int e + 1) = 2 powi (e + 1)"
    using powr_real_of_int'[of "2::real" e] powr_real_of_int'[of "2::real" "e + 1"] by simp_all
  then have "\<lfloor>log 2 x\<rfloor> = e"
    using floor_log_eq_powr_iff[of x 2 e] pos assms by simp
  then show ?thesis
    using pos assms(3) by (simp add: round_double_def Let_def)
qed

lemma round_half_even_of_int [simp]: "round_half_even (of_int n) = n"
  by (simp add: round_half_even_def)

lemma round_double_power_of_two:
  assumes "- 1022 \<le> e"
  shows "round_double (2 powi e) = 2 powi e"
proof -
  have "(2::real) powi e / 2 powi (e - 52) = 2 powi 52"
    by (simp add: power_int_diff)
  also have "\<dots> = of_int (2 ^ 52)"
    by simp
  finally have q: "(2::real) powi e / 2 powi (e - 52) = of_int (2 ^ 52)" .
  have "round_double (2 powi e) = of_int (2 ^ 52) * 2 powi (e - 52)"
    using round_double_normal[of e "2 powi e"] assms
    by (simp only: q round_half_even_of_int) (simp add: power_int_add)
  also have "\<dots> = 2 powi e"
    by (simp add: power_int_diff)
  finally show ?thesis .
qed


lemma round_double_power: "round_double (2 ^ n) = 2 ^ n"
  using round_double_power_of_two[of "int n"] by simp

lemma round_double_inverse_power: "n \<le> 1022 \<Longrightarrow> round_double (1 / 2 ^ n) = 1 / 2 ^ n"
  using round_double_power_of_two[of "- int n"]
  by (simp add: power_int_minus inverse_eq_divide)

lemma rd_1: "round_double 1 = 1"
  using round_double_power[of 0] by simp

lemma rd_half: "round_double (1 / 2) = 1 / 2"
  using round_double_inverse_power[of 1] by simp

text \<open>The roundings of the two examples below.\<close>

lemma rd_beta: "round_double (1 / 1048576) = 1 / 2 ^ 20"
  using round_double_inverse_power[of 20] by simp

lemma rd_one_minus: "round_double (1 - 1 / 2 ^ 80) = 1"
  using round_double_normal[of "- 1" "1 - 1 / 2 ^ 80"]
  by (simp add: round_half_even_def Let_def power_int_minus)

lemma rd_pi: "round_double math_pi = math_pi"
  using round_double_normal[of 1 math_pi]
  by (simp add: math_pi_def round_half_even_def Let_def power_int_minus)

lemma rd_pi4: "round_double (math_pi / 4) = math_pi / 4"
  using round_double_normal[of "- 1" "math_pi / 4"]
  by (simp add: math_pi_def round_half_even_def Let_def power_int_minus)

lemma rd_A_075: "round_double (math_pi / 4 * 0.75) = 2652839157010665 / 2 ^ 52"
  using round_double_normal[of "- 1" "math_pi / 4 * 0.75"]
  by (simp add: math_pi_def round_half_even_def Let_def power_int_minus)

lemma rd_A_075_again: "round_double (2652839157010665 / 2 ^ 52) = 2652839157010665 / 2 ^ 52"
  using round_double_normal[of "- 1" "2652839157010665 / 2 ^ 52"]
  by (simp add: round_half_even_def Let_def power_int_minus)

lemma rd_A_09375: "round_double (math_pi / 4 * 0.9375) = 3316048946263331 / 2 ^ 52"
  using round_double_normal[of "- 1" "math_pi / 4 * 0.9375"]
  by (simp add: math_pi_def round_half_even_def Let_def power_int_minus)

lemma rd_A_09375_again: "round_double (3316048946263331 / 2 ^ 52) = 3316048946263331 / 2 ^ 52"
  using round_double_normal[of "- 1" "3316048946263331 / 2 ^ 52"]
  by (simp add: round_half_even_def Let_def power_int_minus)

lemma rd_q1: "round_double (2652839157010665 / 2 ^ 52 * 0.9375) = 4974073419394997 / 2 ^ 53"
  using round_double_normal[of "- 1" "2652839157010665 / 2 ^ 52 * 0.9375"]
  by (simp add: round_half_even_def Let_def power_int_minus)

lemma rd_q2: "round_double (3316048946263331 / 2 ^ 52 * 0.75) = 4974073419394996 / 2 ^ 53"
  using round_double_normal[of "- 1" "3316048946263331 / 2 ^ 52 * 0.75"]
  by (simp add: round_half_even_def Let_def power_int_minus)

lemma dpow_one_half: "dpow 1 0.5 = Inr 1"
  by (simp add: dpow_def fpow_def rd_1)

lemma dpow_beta_4: "dpow (1 / 2 ^ 20) 4 = Inr (1 / 2 ^ 80)"
proof -
  have "fpow (1 / 2 ^ 20) 4 = Inr (1 / 2 ^ 80)"
    by (simp add: fpow_def power_divide)
  moreover have "round_double (1 / 2 ^ 80) = 1 / 2 ^ 80"
    by (rule round_double_inverse_power) simp
  moreover have "\<not> (2 ^ 1024 \<le> \<bar>1 / 2 ^ 80 :: real\<bar>)"
    by simp
  ultimately show ?thesis
    by (simp only: dpow_def bindr_Inr if_False)
qed

lemma double_example_common:
  "dsub 1.5 1 = 1 / 2"
  "ddiv 1 1048576 = Inr (1 / 2 ^ 20)"
  "round_double (dmul (dmul math_pi 1) 1 / 4) = math_pi / 4"
  "dpow (dmul (dmul 2 (1 / 2)) 1) 0.5 = Inr 1"
  "dpow (dsub 1.0 (1 / 2 ^ 80)) 0.5 = Inr 1"
proof -
  show "dsub 1.5 1 = 1 / 2"
    by (simp add: dsub_def rd_half)
  show "ddiv 1 1048576 = Inr (1 / 2 ^ 20)"
    by (simp add: ddiv_def rd_beta)
  show "round_double (dmul (dmul math_pi 1) 1 / 4) = math_pi / 4"
    by (simp add: dmul_def rd_pi rd_pi4)
  have "dmul (dmul 2 (1 / 2)) 1 = 1"
    by (simp add: dmul_def rd_1)
  then show "dpow (dmul (dmul 2 (1 / 2)) 1) 0.5 = Inr 1"
    by (simp only: dpow_one_half)
  have "dsub 1.0 (1 / 2 ^ 80) = 1"
    using rd_one_minus by (simp add: dsub_def)
  then show "dpow (dsub 1.0 (1 / 2 ^ 80)) 0.5 = Inr 1"
    by (simp only: dpow_one_half)
qed

subsection \<open>The solver chooses its unknown by the first absent argument\<close>

text \<open>
  \<^bold>\<open>C1\<close>. For every pair of root finders: with \<open>m\<close>, \<open>D2\<close>, \<open>P2\<close> and \<open>P1\<close>
  all supplied the solver raises its \<^verbatim>\<open>Exception('Solver is capable of solving for one of
  P2, D2, or m only.')\<close>. Otherwise the branch is that of the first absent argument in the
  order \<open>m\<close>, \<open>D2\<close>, \<open>P2\<close>, \<open>P1\<close>, whatever else is absent: \<open>m\<close> absent gives \<^verbatim>\<open>newton\<close>
  from 2.81 on the residual in \<open>m\<close>; else \<open>D2\<close> absent gives \<^verbatim>\<open>brenth\<close> on
  \<open>[D(1 - 1e-9), 0.005 D]\<close>; else \<open>P2\<close> absent gives \<^verbatim>\<open>brenth\<close> on \<open>[P1(1 - 1e-9), 0.7 P1]\<close>;
  else \<open>P1\<close> absent gives \<^verbatim>\<open>brenth\<close> on \<open>[P2(1 + 1e-9), 1.4 P2]\<close>. The guard raises nothing
  when several arguments are absent, but such a call is not free of errors: with \<open>P2\<close>
  and \<open>P1\<close> both absent the bracket \<^verbatim>\<open>P1*(1-1E-9)\<close> raises \<open>TypeError\<close> before the root
  finder is called, and a residual that captured an absent \<open>D2\<close>, \<open>P1\<close> or \<open>P2\<close> raises
  on every trial value (\<open>isl\<close>: the result is an exception).
\<close>

theorem solver_branch_order:
  "differential_pressure_meter_solver newton brenth D rho mu k
       (Some d2) (Some p1) (Some p2) (Some mv) meter_type taps
     = Inl (Exception (Msg ''Solver is capable of solving for one of P2, D2, or m only.''))
   \<and> differential_pressure_meter_solver newton brenth D rho mu k D2 P1 P2 None meter_type taps
     = newton (\<lambda>x. to_solve D D2 x P1 P2 rho mu k meter_type taps) 2.81
   \<and> differential_pressure_meter_solver newton brenth D rho mu k None P1 P2 (Some mv) meter_type taps
     = brenth (\<lambda>x. to_solve D (Some x) mv P1 P2 rho mu k meter_type taps)
         (D * (1 - 1 / 10 ^ 9)) (D * (5 / 10 ^ 3))
   \<and> differential_pressure_meter_solver newton brenth D rho mu k
         (Some d2) (Some p1) None (Some mv) meter_type taps
     = brenth (\<lambda>x. to_solve D (Some d2) mv (Some p1) (Some x) rho mu k meter_type taps)
         (p1 * (1 - 1 / 10 ^ 9)) (p1 * 0.7)
   \<and> differential_pressure_meter_solver newton brenth D rho mu k
         (Some d2) None None (Some mv) meter_type taps
     = Inl TypeError
   \<and> differential_pressure_meter_solver newton brenth D rho mu k
         (Some d2) None (Some p2) (Some mv) meter_type taps
     = brenth (\<lambda>x. to_solve D (Some d2) mv (Some x) (Some p2) rho mu k meter_type taps)
         (p2 * (1 + 1 / 10 ^ 9)) (p2 * 1.4)
   \<and> isl (to_solve D None x P1 P2 rho mu k meter_type taps)
   \<and> isl (to_solve D D2 x None P2 rho mu k meter_type taps)
   \<and> isl (to_solve D D2 x P1 None rho mu k meter_type taps)"
proof -
  have res: "isl (to_solve D None x P1 P2 rho mu k meter_type taps)"
    "isl (to_solve D D2 x None P2 rho mu k meter_type taps)"
    "isl (to_solve D D2 x P1 None rho mu k meter_type taps)"
    by (simp_all add: to_solve_def split: option.splits)
  show ?thesis
    using res by (simp add: differential_pressure_meter_solver_def the_float_def)
qed

text \<open>A call with more than one argument absent is not free of errors: with \<open>P1\<close> and
  \<open>P2\<close> both left out of the docstring's example the solver takes the \<open>P2\<close> branch and
  fails on the bracket, whatever the root finders are.\<close>

theorem solver_two_absent_raises:
  "differential_pressure_meter_solver newton_first_call brenth_first_call
       0.07366 999.1 0.0011 1.33 (Some 0.05) None None (Some 7.702338)
       ISO_5167_ORIFICE (Some ''D'')
     = Inl TypeError"
  by (simp add: differential_pressure_meter_solver_def the_float_def)

subsection \<open>Pressure-drop dispatch\<close>

lemma fdiv_no_exception: "fdiv x y \<noteq> Inl (Exception a)"
  by (simp add: fdiv_def)

lemma fpow_no_exception: "fpow x y \<noteq> Inl (Exception a)"
  by (simp add: fpow_def)

lemma the_float_no_exception: "the_float v \<noteq> Inl (Exception a)"
  by (cases v) (simp_all add: the_float_def)

lemma bindr_no_exception:
  "r \<noteq> Inl (Exception a) \<Longrightarrow> (\<And>v. f v \<noteq> Inl (Exception a)) \<Longrightarrow> bindr r f \<noteq> Inl (Exception a)"
  by (cases r) (simp_all add: bindr_def)

lemma dP_orifice_no_exception: "dP_orifice D Do P1 P2 C \<noteq> Inl (Exception a)"
  unfolding dP_orifice_def Let_def
  by (intro bindr_no_exception fdiv_no_exception fpow_no_exception the_float_no_exception) simp

lemma dP_venturi_tube_no_exception: "dP_venturi_tube D Do P1 P2 \<noteq> Inl (Exception a)"
  unfolding dP_venturi_tube_def Let_def
  by (intro bindr_no_exception fdiv_no_exception) simp

lemma diameter_ratio_cone_meter_no_exception:
  "diameter_ratio_cone_meter D Dc \<noteq> Inl (Exception a)"
  unfolding diameter_ratio_cone_meter_def
  by (intro bindr_no_exception fdiv_no_exception fpow_no_exception)

lemma dP_cone_meter_no_exception: "dP_cone_meter D Dc P1 P2 \<noteq> Inl (Exception a)"
  unfolding dP_cone_meter_def Let_def
  by (intro bindr_no_exception diameter_ratio_cone_meter_no_exception) simp

text \<open>
  \<^bold>\<open>C2\<close>. \<^verbatim>\<open>differential_pressure_meter_dP\<close> returns what \<^verbatim>\<open>dP_orifice\<close>
  returns for the ISO 5167 orifice, the long radius nozzle and the ISA 1932 nozzle, what
  \<^verbatim>\<open>dP_venturi_tube\<close> returns for the three venturi tubes and what \<^verbatim>\<open>dP_cone_meter\<close>
  returns for the cone meter (an arithmetic failure of the formula included). For the
  venturi nozzle and the wedge meter, and for no other meter type, it raises an exception
  by a \<^verbatim>\<open>raise\<close> of its own: the generic \<^verbatim>\<open>Exception\<close> whose only argument is the constant
  \<^verbatim>\<open>NotImplemented\<close>, which does not name the meter type.
\<close>

theorem differential_pressure_meter_dP_dispatch:
  "differential_pressure_meter_dP D D2 P1 P2 C ISO_5167_ORIFICE = dP_orifice D D2 P1 P2 C
   \<and> differential_pressure_meter_dP D D2 P1 P2 C LONG_RADIUS_NOZZLE = dP_orifice D D2 P1 P2 C
   \<and> differential_pressure_meter_dP D D2 P1 P2 C ISA_1932_NOZZLE = dP_orifice D D2 P1 P2 C
   \<and> differential_pressure_meter_dP D D2 P1 P2 C AS_CAST_VENTURI_TUBE = dP_venturi_tube D D2 P1 P2
   \<and> differential_pressure_meter_dP D D2 P1 P2 C MACHINED_CONVERGENT_VENTURI_TUBE
        = dP_venturi_tube D D2 P1 P2
   \<and> differential_pressure_meter_dP D D2 P1 P2 C ROUGH_WELDED_CONVERGENT_VENTURI_TUBE
        = dP_venturi_tube D D2 P1 P2
   \<and> differential_pressure_meter_dP D D2 P1 P2 C CONE_METER = dP_cone_meter D D2 P1 P2
   \<and> differential_pressure_meter_dP D D2 P1 P2 C VENTURI_NOZZLE = Inl (Exception NotImplemented)
   \<and> differential_pressure_meter_dP D D2 P1 P2 C WEDGE_METER = Inl (Exception NotImplemented)
   \<and> ((\<exists>a. differential_pressure_meter_dP D D2 P1 P2 C meter_type = Inl (Exception a))
        = (meter_type = VENTURI_NOZZLE \<or> meter_type = WEDGE_METER))
   \<and> names_meter_type (Exception NotImplemented) VENTURI_NOZZLE = False
   \<and> names_meter_type (Exception NotImplemented) WEDGE_METER = False"
proof -
  have only: "(\<exists>a. differential_pressure_meter_dP D D2 P1 P2 C meter_type = Inl (Exception a))
        = (meter_type = VENTURI_NOZZLE \<or> meter_type = WEDGE_METER)"
    unfolding differential_pressure_meter_dP_def meter_type_defs
    by (simp add: dP_orifice_no_exception dP_venturi_tube_no_exception dP_cone_meter_no_exception)
  have names: "names_meter_type (Exception NotImplemented) VENTURI_NOZZLE = False"
     "names_meter_type (Exception NotImplemented) WEDGE_METER = False"
    by (simp_all add: meter_type_defs)
  have calls:
    "differential_pressure_meter_dP D D2 P1 P2 C ISO_5167_ORIFICE = dP_orifice D D2 P1 P2 C"
    "differential_pressure_meter_dP D D2 P1 P2 C LONG_RADIUS_NOZZLE = dP_orifice D D2 P1 P2 C"
    "differential_pressure_meter_dP D D2 P1 P2 C ISA_1932_NOZZLE = dP_orifice D D2 P1 P2 C"
    "differential_pressure_meter_dP D D2 P1 P2 C AS_CAST_VENTURI_TUBE = dP_venturi_tube D D2 P1 P2"
    "differential_pressure_meter_dP D D2 P1 P2 C MACHINED_CONVERGENT_VENTURI_TUBE
        = dP_venturi_tube D D2 P1 P2"
    "differential_pressure_meter_dP D D2 P1 P2 C ROUGH_WELDED_CONVERGENT_VENTURI_TUBE
        = dP_venturi_tube D D2 P1 P2"
    "differential_pressure_meter_dP D D2 P1 P2 C CONE_METER = dP_cone_meter D D2 P1 P2"
    "differential_pressure_meter_dP D D2 P1 P2 C VENTURI_NOZZLE = Inl (Exception NotImplemented)"
    "differential_pressure_meter_dP D D2 P1 P2 C WEDGE_METER = Inl (Exception NotImplemented)"
    by (simp_all add: differential_pressure_meter_dP_def meter_type_defs)
  show ?thesis
    using only names calls by blast
qed

text \<open>The failure is a generic one and does not name the meter type: for the venturi
  nozzle of the docstring's geometry the exception is \<^verbatim>\<open>Exception(NotImplemented)\<close>, and
  its text does not contain \<^verbatim>\<open>'venuri nozzle'\<close>.\<close>

theorem differential_pressure_meter_dP_generic_failure:
  "differential_pressure_meter_dP 0.07366 0.05 200000 183000 (Some 0.6) VENTURI_NOZZLE
     = Inl (Exception NotImplemented)
   \<and> \<not> names_meter_type (Exception NotImplemented) VENTURI_NOZZLE"
  by (simp add: differential_pressure_meter_dP_def meter_type_defs)

subsection \<open>The swapped pair in the solver's residual\<close>

lemma orifice_discharge_swap:
  "orifice_discharge D Do P1 P2 rho a (Some b) = orifice_discharge D Do P1 P2 rho b (Some a)"
  by (simp add: orifice_discharge_def bindr_def fdiv_def Let_def split: sum.splits)

lemma bindr_pair_iff:
  "(bindr a (\<lambda>u. bindr b (\<lambda>v. Inr (u, v))) = Inr (x, y)) = (a = Inr x \<and> b = Inr y)"
  "(bindr b (\<lambda>v. bindr a (\<lambda>u. Inr (u, v))) = Inr (x, y)) = (a = Inr x \<and> b = Inr y)"
  "(bindr a (\<lambda>u. Inr (u, c)) = Inr (x, y)) = (a = Inr x \<and> Inr c = (Inr y :: 'c res))"
  by (cases a; cases b; auto)+

text \<open>
  \<^bold>\<open>C10\<close>. The dispatch helper returns \<open>(expansibility, C)\<close> in that order: for every meter
  type it returns \<open>(x, y)\<close> exactly when the type's expansibility formula gives \<open>x\<close> and
  its discharge coefficient is \<open>y\<close>. The solver's residual binds the first component to
  \<^verbatim>\<open>C\<close> and the second to \<^verbatim>\<open>epsilon\<close>. In exact real arithmetic the residual equals the one
  with the components paired by name, because there the formula of \<^verbatim>\<open>orifice_discharge\<close>
  is unchanged when the values of \<^verbatim>\<open>C\<close> and \<^verbatim>\<open>expansibility\<close> are exchanged. This is a
  statement about the formula only: the doubles the code computes are not identical, as
  the example after the theorem shows.
\<close>

theorem residual_swap_harmless:
  "orifice_discharge D Do P1 P2 rho a (Some b) = orifice_discharge D Do P1 P2 rho b (Some a)
   \<and> to_solve D D2 m P1o P2o rho mu k meter_type taps
       = to_solve_paired D D2 m P1o P2o rho mu k meter_type taps
   \<and> ((differential_pressure_C_epsilon D Do m P1 P2 rho mu k meter_type taps = Inr (x, y))
       = (spec_expansibility meter_type D Do P1 P2 k = Inr x
          \<and> spec_discharge_coefficient meter_type D Do rho mu m taps = Inr y))"
proof -
  have residual: "to_solve D D2 m P1o P2o rho mu k meter_type taps
       = to_solve_paired D D2 m P1o P2o rho mu k meter_type taps"
    unfolding to_solve_def to_solve_paired_def
    by (auto simp: bindr_def orifice_discharge_swap split: sum.splits prod.splits option.splits)
  have order: "(differential_pressure_C_epsilon D Do m P1 P2 rho mu k meter_type taps = Inr (x, y))
       = (spec_expansibility meter_type D Do P1 P2 k = Inr x
          \<and> spec_discharge_coefficient meter_type D Do rho mu m taps = Inr y)"
    unfolding differential_pressure_C_epsilon_def spec_expansibility_def
      spec_discharge_coefficient_def meter_type_defs
      CONE_METER_C_def ROUGH_WELDED_CONVERGENT_VENTURI_TUBE_C_def
      MACHINED_CONVERGENT_VENTURI_TUBE_C_def AS_CAST_VENTURI_TUBE_C_def
    by (simp add: bindr_pair_iff)
  show ?thesis
    using residual order orifice_discharge_swap by blast
qed

text \<open>On doubles the exchange is visible. With \<open>D = 2\<^sup>2\<^sup>0\<close>, \<open>Do = 1\<close>, \<open>P1 = 1.5\<close>,
  \<open>P2 = 1\<close> and \<open>rho = 1\<close> both roots of the orifice equation are roots of \<open>1.0\<close>, so the
  value is \<^verbatim>\<open>(math.pi/4*C)*expansibility\<close> with its two roundings. \<open>C = 0.75\<close> and
  \<open>expansibility = 0.9375\<close> give \<^verbatim>\<open>0.5522330836388308\<close>; the two exchanged give
  \<^verbatim>\<open>0.5522330836388307\<close>.\<close>

lemma orifice_discharge_double_example_1:
  "orifice_discharge_double 1048576 1 1.5 1 1 0.75 (Some 0.9375)
     = Inr (4974073419394997 / 2 ^ 53)"
proof -
  have a: "dmul (math_pi / 4) 0.75 = 2652839157010665 / 2 ^ 52"
    by (simp only: dmul_def rd_A_075)
  have b: "dmul (2652839157010665 / 2 ^ 52) 1 = 2652839157010665 / 2 ^ 52"
    by (simp only: dmul_def mult_1_right rd_A_075_again)
  have c: "ddiv (2652839157010665 / 2 ^ 52) 1 = Inr (2652839157010665 / 2 ^ 52)"
    by (simp only: ddiv_def div_by_1 rd_A_075_again) simp
  have m: "dmul (2652839157010665 / 2 ^ 52) 0.9375 = 4974073419394997 / 2 ^ 53"
    by (simp only: dmul_def rd_q1)
  show ?thesis
    unfolding orifice_discharge_double_def Let_def option.case
    by (simp only: double_example_common dpow_beta_4 a b c m bindr_Inr)
qed

lemma orifice_discharge_double_example_2:
  "orifice_discharge_double 1048576 1 1.5 1 1 0.9375 (Some 0.75)
     = Inr (4974073419394996 / 2 ^ 53)"
proof -
  have a: "dmul (math_pi / 4) 0.9375 = 3316048946263331 / 2 ^ 52"
    by (simp only: dmul_def rd_A_09375)
  have b: "dmul (3316048946263331 / 2 ^ 52) 1 = 3316048946263331 / 2 ^ 52"
    by (simp only: dmul_def mult_1_right rd_A_09375_again)
  have c: "ddiv (3316048946263331 / 2 ^ 52) 1 = Inr (3316048946263331 / 2 ^ 52)"
    by (simp only: ddiv_def div_by_1 rd_A_09375_again) simp
  have m: "dmul (3316048946263331 / 2 ^ 52) 0.75 = 4974073419394996 / 2 ^ 53"
    by (simp only: dmul_def rd_q2)
  show ?thesis
    unfolding orifice_discharge_double_def Let_def option.case
    by (simp only: double_example_common dpow_beta_4 a b c m bindr_Inr)
qed

text \<open>\<^verbatim>\<open>orifice_discharge\<close> is not symmetric in \<^verbatim>\<open>C\<close> and \<^verbatim>\<open>expansibility\<close> on doubles: at
  the input above the two values differ in the last bit.\<close>

theorem residual_swap_changes_double:
  "orifice_discharge_double 1048576 1 1.5 1 1 0.75 (Some 0.9375)
     = Inr (4974073419394997 / 2 ^ 53)
   \<and> orifice_discharge_double 1048576 1 1.5 1 1 0.9375 (Some 0.75)
     = Inr (4974073419394996 / 2 ^ 53)
   \<and> orifice_discharge_double 1048576 1 1.5 1 1 0.75 (Some 0.9375)
     \<noteq> orifice_discharge_double 1048576 1 1.5 1 1 0.9375 (Some 0.75)"
  unfolding orifice_discharge_double_example_1 orifice_discharge_double_example_2 by simp

subsection \<open>Range of the orifice expansibility\<close>

lemma orifice_expansibility_value:
  assumes b: "0 < Do / D" and k: "1 \<le> k" and P1: "0 < P1" and lo: "0.80 * P1 \<le> P2"
  shows "orifice_expansibility D Do P1 P2 k =
     Inr (1 - (0.351 + 0.256 * (Do / D) ^ 4 + 0.93 * (Do / D) ^ 8) * (1 - (P2 / P1) powr (1 / k)))"
proof -
  have D: "D \<noteq> 0" using b by auto
  have P1n: "P1 \<noteq> 0" and kn: "k \<noteq> 0" using P1 k by auto
  have tau: "0 < P2 / P1" using P1 lo by (simp add: field_simps)
  have e: "1 / k \<noteq> 0" using k by simp
  show ?thesis
    unfolding orifice_expansibility_def
    using fdiv_ok [OF D] fdiv_ok [OF P1n] fdiv_ok [OF kn] fpow_pos [OF tau e] by simp
qed

lemma expansibility_formula_range:
  fixes \<beta> \<tau> k :: real
  assumes b0: "0 < \<beta>" and b1: "\<beta> < 1" and k: "1 \<le> k" and t0: "0.80 \<le> \<tau>" and t1: "\<tau> \<le> 1"
  defines "e \<equiv> 1 - (0.351 + 0.256 * \<beta> ^ 4 + 0.93 * \<beta> ^ 8) * (1 - \<tau> powr (1 / k))"
  shows "0 < e" and "e \<le> 1"
proof -
  have pw: "\<tau> powr 1 \<le> \<tau> powr (1 / k)"
    by (rule powr_mono') (use k t0 t1 in \<open>auto simp: field_simps\<close>)
  have p_lo: "0.80 \<le> \<tau> powr (1 / k)" using pw t0 by simp
  have p_hi: "\<tau> powr (1 / k) \<le> 1" using t0 t1 k by (intro powr_le1) auto
  have b4: "\<beta> ^ 4 < 1" and b8: "\<beta> ^ 8 < 1" using b0 b1 by (simp_all add: power_less_one_iff)
  have b4': "0 \<le> \<beta> ^ 4" and b8': "0 \<le> \<beta> ^ 8" using b0 by simp_all
  let ?c = "0.351 + 0.256 * \<beta> ^ 4 + 0.93 * \<beta> ^ 8"
  let ?u = "1 - \<tau> powr (1 / k)"
  have c0: "0 \<le> ?c" using b4' b8' by simp
  have c1: "?c \<le> 1.537" using b4 b8 by simp
  have u0: "0 \<le> ?u" using p_hi by simp
  have u1: "?u \<le> 0.2" using p_lo by simp
  have "?c * ?u \<le> 1.537 * 0.2" by (rule mult_mono [OF c1 u1]) (use u0 in auto)
  then show "0 < e" unfolding e_def by simp
  have "0 \<le> ?c * ?u" using c0 u0 by (rule mult_nonneg_nonneg)
  then show "e \<le> 1" unfolding e_def by simp
qed

text \<open>
  \<^bold>\<open>C9\<close>. For \<open>0 < Do/D < 1\<close>, \<open>k \<ge> 1\<close>, \<open>P1 > 0\<close> and \<open>0.80 P1 \<le> P2 \<le> P1\<close>,
  \<^verbatim>\<open>orifice_expansibility\<close> returns
  \<open>1 - (0.351 + 0.256 \<beta>\<^sup>4 + 0.93 \<beta>\<^sup>8) (1 - (P2/P1)\<^bsup>1/k\<^esup>)\<close>; the value lies in \<open>(0, 1]\<close>
  and is 1 when \<open>P2 = P1\<close>.
\<close>

theorem orifice_expansibility_range:
  assumes "0 < Do / D" and "Do / D < 1" and "1 \<le> k" and "0 < P1"
    and "0.80 * P1 \<le> P2" and "P2 \<le> P1"
  shows "\<exists>e. orifice_expansibility D Do P1 P2 k = Inr e
           \<and> e = 1 - (0.351 + 0.256 * (Do / D) ^ 4 + 0.93 * (Do / D) ^ 8)
                      * (1 - (P2 / P1) powr (1 / k))
           \<and> 0 < e \<and> e \<le> 1 \<and> (P2 = P1 \<longrightarrow> e = 1)"
proof -
  have t0: "0.80 \<le> P2 / P1" and t1: "P2 / P1 \<le> 1"
    using assms(4-6) by (simp_all add: field_simps)
  have one: "P2 = P1 \<Longrightarrow> (P2 / P1) powr (1 / k) = 1"
    using assms(4) by simp
  show ?thesis
    using orifice_expansibility_value [OF assms(1,3,4,5)]
      expansibility_formula_range [OF assms(1,2,3) t0 t1] one
    by simp
qed

theorem orifice_expansibility_range_witness:
  "(0::real) < 0.0222 / 0.0739 \<and> (0.0222::real) / 0.0739 < 1 \<and> (1::real) \<le> 1.4
   \<and> (0.80::real) * 100000 \<le> 100000
   \<and> orifice_expansibility 0.0739 0.0222 100000 100000 1.4 = Inr 1"
  using orifice_expansibility_range [of "0.0222" "0.0739" "1.4" 100000 100000] by auto

subsection \<open>Discharge coefficient and loss coefficient are inverse\<close>

lemma discharge_coefficient_to_K_value:
  assumes b0: "0 < Do / D" and b1: "Do / D < 1" and C0: "0 < C" and C1: "C < 1"
  shows "discharge_coefficient_to_K D Do C =
     Inr ((sqrt (1 - (Do / D) ^ 4 * (1 - C\<^sup>2)) / (C * (Do / D)\<^sup>2) - 1)\<^sup>2)"
proof -
  define \<beta> where "\<beta> = Do / D"
  have D: "D \<noteq> 0" using b0 by auto
  have b4: "\<beta> ^ 4 < 1" using b0 b1 by (simp add: \<beta>_def power_less_one_iff)
  have "\<beta> ^ 4 * (1 - C * C) \<le> \<beta> ^ 4 * 1"
    by (rule mult_left_mono) (use C0 in auto)
  with b4 have rad: "0 \<le> 1 - \<beta> ^ 4 * (1 - C * C)" by linarith
  have eq4: "\<beta> * \<beta> * (\<beta> * \<beta>) = \<beta> ^ 4" by (simp add: power4_eq_xxxx)
  have "0 < \<beta>" using b0 by (simp add: \<beta>_def)
  then have den: "C * (\<beta> * \<beta>) \<noteq> 0" using C0 by simp
  have s: "fpow (1.0 - \<beta> * \<beta> * (\<beta> * \<beta>) * (1.0 - C * C)) 0.5
             = Inr (sqrt (1 - \<beta> ^ 4 * (1 - C * C)))"
    unfolding half eq4 using fpow_sqrt [OF rad] by simp
  show ?thesis
    unfolding discharge_coefficient_to_K_def Let_def \<beta>_def [symmetric]
    by (simp only: fdiv_ok [OF D] \<beta>_def [symmetric] bindr_Inr s fdiv_ok [OF den])
       (simp add: power2_eq_square)
qed

lemma K_to_discharge_coefficient_inverts:
  assumes b0: "0 < Do / D" and b1: "Do / D < 1" and C0: "0 < C" and C1: "C < 1"
  defines "K \<equiv> (sqrt (1 - (Do / D) ^ 4 * (1 - C\<^sup>2)) / (C * (Do / D)\<^sup>2) - 1)\<^sup>2"
  shows "K_to_discharge_coefficient D Do K = Inr C"
proof -
  define \<beta> where "\<beta> = Do / D"
  define s where "s = sqrt (1 - \<beta> ^ 4 * (1 - C\<^sup>2))"
  define r where "r = s / (C * \<beta>\<^sup>2)"
  have D: "D \<noteq> 0" using b0 by auto
  have bpos: "0 < \<beta>" and blt: "\<beta> < 1" using b0 b1 by (simp_all add: \<beta>_def)
  have b4: "\<beta> ^ 4 < 1" and b4p: "0 < \<beta> ^ 4"
    using bpos blt by (simp_all add: power_less_one_iff)
  have "\<beta> ^ 4 * (1 - C\<^sup>2) \<le> \<beta> ^ 4 * 1"
    by (rule mult_left_mono) (use b4p in auto)
  with b4 have rad: "0 \<le> 1 - \<beta> ^ 4 * (1 - C\<^sup>2)" by linarith
  have ss: "s\<^sup>2 = 1 - \<beta> ^ 4 * (1 - C\<^sup>2)"
    unfolding s_def using rad by (rule real_sqrt_pow2)
  have s0: "0 \<le> s"
    unfolding s_def using rad by (rule real_sqrt_ge_zero)
  have cb: "0 < C * \<beta>\<^sup>2" using C0 bpos by simp
  have "(C * \<beta>\<^sup>2)\<^sup>2 < s\<^sup>2"
  proof -
    have "(C * \<beta>\<^sup>2)\<^sup>2 = \<beta> ^ 4 * C\<^sup>2"
      by (simp add: power_mult_distrib power2_eq_square power4_eq_xxxx)
    moreover have "s\<^sup>2 - \<beta> ^ 4 * C\<^sup>2 = 1 - \<beta> ^ 4" by (simp add: ss algebra_simps)
    ultimately show ?thesis using b4 by simp
  qed
  with s0 have "C * \<beta>\<^sup>2 < s" using cb by (simp add: power2_less_imp_less)
  then have r1: "1 < r" using cb by (simp add: r_def)
  have K: "K = (r - 1)\<^sup>2" by (simp add: K_def r_def s_def \<beta>_def)
  have K0: "0 \<le> K" by (simp add: K)
  have rootK: "sqrt K = r - 1" using r1 by (simp add: K)
  have r2: "r\<^sup>2 - 1 = (1 - \<beta> ^ 4) / (C\<^sup>2 * \<beta> ^ 4)"
  proof -
    have "r\<^sup>2 = s\<^sup>2 / (C\<^sup>2 * \<beta> ^ 4)"
      by (simp add: r_def power_divide power_mult_distrib power2_eq_square power4_eq_xxxx)
    then show ?thesis using C0 bpos by (simp add: ss field_simps)
  qed
  define common where "common = 2 * sqrt K * \<beta> ^ 4 + K * \<beta> ^ 4"
  have "common = \<beta> ^ 4 * (r\<^sup>2 - 1)"
    unfolding common_def rootK by (simp add: K power2_eq_square algebra_simps)
  then have "common = \<beta> ^ 4 * ((1 - \<beta> ^ 4) / (C\<^sup>2 * \<beta> ^ 4))"
    by (simp only: r2)
  also have "\<dots> = (1 - \<beta> ^ 4) / C\<^sup>2"
    using b4p by simp
  finally have common: "common = (1 - \<beta> ^ 4) / C\<^sup>2" .
  have cpos: "0 < common" using common C0 b4 by simp
  then have cn: "common \<noteq> 0" by simp
  have fin: "- (\<beta> ^ 4) / common + 1 / common = C\<^sup>2"
  proof -
    have "- (\<beta> ^ 4) / common + 1 / common = (1 - \<beta> ^ 4) / common"
      by (simp add: diff_divide_distrib)
    also have "\<dots> = C\<^sup>2" using b4 C0 by (simp add: common)
    finally show ?thesis .
  qed
  have eq4: "\<beta> * \<beta> * (\<beta> * \<beta>) = \<beta> ^ 4" by (simp add: power4_eq_xxxx)
  have rk: "fpow K 0.5 = Inr (sqrt K)"
    unfolding half by (rule fpow_sqrt [OF K0])
  have com': "2.0 * sqrt K * \<beta> ^ 4 + K * \<beta> ^ 4 = common" by (simp add: common_def)
  have last: "fpow (- (\<beta> ^ 4) / common + 1.0 / common) 0.5 = Inr C"
  proof -
    have "fpow (C\<^sup>2) (1 / 2) = Inr (sqrt (C\<^sup>2))" by (rule fpow_sqrt) simp
    then show ?thesis using fin C0 by simp
  qed
  show ?thesis
    unfolding K_to_discharge_coefficient_def Let_def
    by (simp only: fdiv_ok [OF D] \<beta>_def [symmetric] bindr_Inr eq4 rk com' fdiv_ok [OF cn] last)
qed

text \<open>
  \<^bold>\<open>C3\<close>. In exact real arithmetic, for \<open>0 < Do/D < 1\<close> and \<open>0 < C < 1\<close>, the formula of
  \<^verbatim>\<open>discharge_coefficient_to_K\<close> gives
  \<open>K = (sqrt (1 - \<beta>\<^sup>4 (1 - C\<^sup>2)) / (C \<beta>\<^sup>2) - 1)\<^sup>2\<close> and that of \<^verbatim>\<open>K_to_discharge_coefficient\<close>
  on that \<open>K\<close> gives \<open>C\<close>: the round trip is the identity, exactly. No tolerance is
  stated for the doubles: on them the round trip is not within \<open>1e-9\<close> on the whole of
  this domain, as the example after the theorem shows.
\<close>

theorem K_round_trip:
  assumes "0 < Do / D" and "Do / D < 1" and "0 < C" and "C < 1"
  shows "\<exists>K. discharge_coefficient_to_K D Do C = Inr K
           \<and> K = (sqrt (1 - (Do / D) ^ 4 * (1 - C\<^sup>2)) / (C * (Do / D)\<^sup>2) - 1)\<^sup>2
           \<and> K_to_discharge_coefficient D Do K = Inr C
           \<and> bindr (discharge_coefficient_to_K D Do C) (K_to_discharge_coefficient D Do) = Inr C"
  using discharge_coefficient_to_K_value [OF assms] K_to_discharge_coefficient_inverts [OF assms]
  by simp

theorem K_round_trip_witness:
  "(0::real) < 0.05 / 0.07366 \<and> (0.05::real) / 0.07366 < 1 \<and> (0::real) < 0.61512
   \<and> (0.61512::real) < 1
   \<and> bindr (discharge_coefficient_to_K 0.07366 0.05 0.61512)
        (K_to_discharge_coefficient 0.07366 0.05) = Inr 0.61512"
  using K_round_trip [of "0.05" "0.07366" "0.61512"] by simp

text \<open>On doubles the round trip can fail altogether. With \<open>D = 2\<^sup>2\<^sup>0\<close>, \<open>Do = 1\<close> and
  \<open>C = 2 powi - 480\<close>, the quotient \<^verbatim>\<open>(...)**0.5/(C*beta2)\<close> is \<open>2\<^sup>5\<^sup>2\<^sup>0\<close> and its square is
  beyond the largest double.\<close>

lemma rd_one_minus_C2: "round_double (1 - 1 / 2 ^ 960) = 1"
  using round_double_normal[of "- 1" "1 - 1 / 2 ^ 960"]
  by (simp add: round_half_even_def Let_def power_int_minus)

lemma rd_q_minus: "round_double (2 ^ 520 - 1) = 2 ^ 520"
  using round_double_normal[of 519 "2 ^ 520 - 1"]
  by (simp add: round_half_even_def Let_def power_int_minus)

lemma discharge_coefficient_to_K_double_example:
  "discharge_coefficient_to_K_double 1048576 1 (1 / 2 ^ 480) = Inl OverflowError"
proof -
  have beta2: "dmul (1 / 2 ^ 20) (1 / 2 ^ 20) = 1 / 2 ^ 40"
    using round_double_inverse_power[of 40] by (simp add: dmul_def)
  have beta4: "dmul (1 / 2 ^ 40) (1 / 2 ^ 40) = 1 / 2 ^ 80"
    using round_double_inverse_power[of 80] by (simp add: dmul_def)
  have CC: "dmul (1 / 2 ^ 480) (1 / 2 ^ 480) = 1 / 2 ^ 960"
    using round_double_inverse_power[of 960] by (simp add: dmul_def)
  have u: "dsub 1.0 (1 / 2 ^ 960) = 1"
    using rd_one_minus_C2 by (simp add: dsub_def)
  have v: "dmul (1 / 2 ^ 80) 1 = 1 / 2 ^ 80"
    using round_double_inverse_power[of 80] by (simp add: dmul_def)
  have den: "dmul (1 / 2 ^ 480) (1 / 2 ^ 40) = 1 / 2 ^ 520"
    using round_double_inverse_power[of 520] by (simp add: dmul_def)
  have q: "ddiv 1 (1 / 2 ^ 520) = Inr (2 ^ 520)"
    using round_double_power[of 520] by (simp add: ddiv_def)
  have r: "dsub (2 ^ 520) 1.0 = 2 ^ 520"
    using rd_q_minus by (simp add: dsub_def)
  have "fpow (2 ^ 520) 2 = Inr (2 ^ 1040)"
    by (simp add: fpow_def)
  then have K: "dpow (2 ^ 520) 2 = Inl OverflowError"
    using round_double_power[of 1040] by (simp add: dpow_def)
  show ?thesis
    unfolding discharge_coefficient_to_K_double_def Let_def
    by (simp only: beta2 beta4 CC u v double_example_common den q r K bindr_Inr)
qed

text \<open>The input is in the stated domain, and \<^verbatim>\<open>discharge_coefficient_to_K\<close> raises
  \<^verbatim>\<open>OverflowError\<close> there: the round trip returns nothing.\<close>

theorem K_round_trip_overflows_double:
  "(0::real) < 1 / 1048576 \<and> (1::real) / 1048576 < 1
   \<and> (0::real) < 1 / 2 ^ 480 \<and> (1::real) / 2 ^ 480 < 1
   \<and> discharge_coefficient_to_K_double 1048576 1 (1 / 2 ^ 480) = Inl OverflowError
   \<and> bindr (discharge_coefficient_to_K_double 1048576 1 (1 / 2 ^ 480))
         (K_to_discharge_coefficient_double 1048576 1) = Inl OverflowError"
  unfolding discharge_coefficient_to_K_double_example by simp

subsection \<open>Reader-Harris/Gallagher coefficient: terms and taps\<close>

lemma tap_lengths_nonneg:
  assumes "tap_lengths taps D = Inr (L1, L2p)" and "0 < D"
  shows "0 \<le> L2p"
  using assms by (auto simp: tap_lengths_def split: if_splits)

lemma C_RHG_value:
  assumes D: "0 < D" and Do: "0 < Do" and lt: "Do < D" and rho: "0 < rho" and mu: "0 < mu"
    and m: "0 < m" and taps: "tap_lengths taps D = Inr (L1, L2p)"
  shows "C_Reader_Harris_Gallagher D Do rho mu m taps = Inr (spec_C_RHG D Do rho mu m L1 L2p)"
proof -
  define v where "v = m / (pi / 4 * D * D * rho)"
  define ReD where "ReD = rho * v * D / mu"
  define \<beta> where "\<beta> = Do / D"
  define M2p where "M2p = 2 * L2p / (1.0 - \<beta>)"
  have vpos: "0 < v" using D rho m by (simp add: v_def)
  have ReDpos: "0 < ReD" using vpos D rho mu by (simp add: ReD_def)
  have b0: "0 < \<beta>" and b1: "\<beta> < 1" using D Do lt by (simp_all add: \<beta>_def)
  have b4: "\<beta> * \<beta> * (\<beta> * \<beta>) < 1"
    using b0 b1 power_less_one_iff [of \<beta> 4] by (simp add: power4_eq_xxxx)
  have L2: "0 \<le> L2p" using tap_lengths_nonneg [OF taps D] .
  have M2: "0 \<le> M2p" using L2 b1 by (simp add: M2p_def)
  have s1: "fdiv m (pi / 4 * D * D * rho) = Inr v"
    using D rho by (simp add: v_def)
  have s2: "fdiv (rho * v * D) mu = Inr ReD"
    using mu by (simp add: ReD_def)
  have s3: "fdiv Do D = Inr \<beta>"
    using D by (simp add: \<beta>_def)
  have s4: "fdiv (19000.0 * \<beta>) ReD = Inr (19000.0 * \<beta> / ReD)"
    using ReDpos by simp
  have s5: "fpow (19000.0 * \<beta> / ReD) 0.8 = Inr ((19000.0 * \<beta> / ReD) powr 0.8)"
    using ReDpos b0 by (intro fpow_pos) simp_all
  have s6: "fdiv (2 * L2p) (1.0 - \<beta>) = Inr M2p"
    using b1 by (simp add: M2p_def)
  have s7: "\<And>x. fdiv x (1.0 - \<beta> * \<beta> * (\<beta> * \<beta>)) = Inr (x / (1.0 - \<beta> * \<beta> * (\<beta> * \<beta>)))"
    using b4 by simp
  have s8: "fpow M2p 1.1 = Inr (M2p powr 1.1)"
    using M2 by (intro fpow_nonneg) simp_all
  have s9: "\<And>y. y \<noteq> 0 \<Longrightarrow> fpow \<beta> y = Inr (\<beta> powr y)"
    using b0 by (intro fpow_pos) simp_all
  have s10: "fdiv 3700 ReD = Inr (3700 / ReD)" using ReDpos by simp
  have s11: "flog10 (3700 / ReD) = Inr (log 10 (3700 / ReD))"
    using ReDpos by (intro flog10_pos) simp
  have s12: "fdiv (1000000 * \<beta>) ReD = Inr (1000000 * \<beta> / ReD)" using ReDpos by simp
  have s13: "fpow (1000000 * \<beta> / ReD) 0.7 = Inr ((1000000 * \<beta> / ReD) powr 0.7)"
    using ReDpos b0 by (intro fpow_pos) simp_all
  have s14: "fdiv 1000000 ReD = Inr (1000000 / ReD)" using ReDpos by simp
  have s15: "fpow (1000000 / ReD) 0.3 = Inr ((1000000 / ReD) powr 0.3)"
    using ReDpos by (intro fpow_pos) simp_all
  have nz: "(1.3::real) \<noteq> 0" "(3.5::real) \<noteq> 0" by simp_all
  have lhs: "C_Reader_Harris_Gallagher D Do rho mu m taps =
    (let C = 0.5961 + 0.0261 * (\<beta> * \<beta>) - 0.216 * (\<beta> * \<beta> * (\<beta> * \<beta>) * (\<beta> * \<beta> * (\<beta> * \<beta>)))
               + 0.000521 * (1000000 * \<beta> / ReD) powr 0.7
               + (0.0188 + 0.0063 * (19000.0 * \<beta> / ReD) powr 0.8) * \<beta> powr 3.5
                 * max ((1000000 / ReD) powr 0.3) (22.7 - 4700.0 * (ReD / 1000000))
             + (0.043 + 0.080 * exp (- 10 * L1) - 0.123 * exp (- 7.0 * L1))
                     * (1.0 - 0.11 * (19000.0 * \<beta> / ReD) powr 0.8) * (\<beta> * \<beta> * (\<beta> * \<beta>))
                 / (1.0 - \<beta> * \<beta> * (\<beta> * \<beta>))
             + - 0.031 * (M2p - 0.8 * M2p powr 1.1) * \<beta> powr 1.3
                 * (1.0 + 8 * max (log 10 (3700 / ReD)) 0.0)
      in if D < 0.07112
         then Inr (C + 0.011 * (0.75 - \<beta>) * max (2.8 - D / 0.0254) 0.0)
         else Inr C)"
    unfolding C_Reader_Harris_Gallagher_def Let_def
    by (simp only: s1 s2 s3 taps bindr_Inr prod.case s4 s5 s6 s7 s8 s9 [OF nz(1)] s9 [OF nz(2)]
        s10 s11 s12 s13 s14 s15)
  have bd: "Do / D = \<beta>" by (simp add: \<beta>_def)
  have rd: "spec_Re_D D rho mu m = ReD" by (simp add: spec_Re_D_def ReD_def v_def)
  have e4: "\<beta> * \<beta> * (\<beta> * \<beta>) = \<beta> ^ 4" by (simp add: power4_eq_xxxx)
  have e8: "\<beta> ^ 4 * \<beta> ^ 4 = \<beta> ^ 8" by (simp add: power_add [symmetric])
  show ?thesis
    unfolding lhs spec_C_RHG_def spec_C_inf_C_s_def spec_delta_C_upstream_def
      spec_delta_C_downstream_def spec_A_def Let_def bd rd e4 e8
    by (simp add: M2p_def power2_eq_square)
qed

text \<open>
  \<^bold>\<open>C4\<close>. For a valid geometry and fluid (\<open>0 < Do < D\<close>, positive \<open>rho\<close>, \<open>mu\<close>, \<open>m\<close>) and
  tap lengths \<open>(L1, L2p)\<close> from the tap chain, \<^verbatim>\<open>C_Reader_Harris_Gallagher\<close> returns the sum
  of: the slope term \<open>C_inf_C_s\<close>, whose last factor is
  \<open>max ((1e6/Re_D)\<^bsup>0.3\<^esup>) (22.7 - 4700 (Re_D/1e6))\<close>; the upstream tap term; the downstream
  tap term \<open>-0.031 (M2' - 0.8 M2'\<^bsup>1.1\<^esup>) \<beta>\<^bsup>1.3\<^esup> (1 + 8 max (log10 (3700/Re_D)) 0)\<close>; and, exactly
  when \<open>D < 0.07112\<close>, the correction \<open>0.011 (0.75 - \<beta>) max (2.8 - D/0.0254) 0\<close> (nothing
  is added for \<open>D \<ge> 0.07112\<close>).
\<close>

theorem C_Reader_Harris_Gallagher_terms:
  fixes D Do rho mu m L1 L2p :: real
  assumes "0 < D" and "0 < Do" and "Do < D" and "0 < rho" and "0 < mu" and "0 < m"
    and "tap_lengths taps D = Inr (L1, L2p)"
  defines "\<beta> \<equiv> Do / D"
    and "ReD \<equiv> rho * (m / (pi / 4 * D * D * rho)) * D / mu"
    and "M2p \<equiv> 2 * L2p / (1 - Do / D)"
  defines "A \<equiv> (19000 * \<beta> / ReD) powr 0.8"
  defines "delta_C_upstream \<equiv>
      (0.043 + 0.080 * exp (- 10 * L1) - 0.123 * exp (- 7 * L1)) * (1 - 0.11 * A)
        * \<beta> ^ 4 / (1 - \<beta> ^ 4)"
    and "delta_C_downstream \<equiv>
      - 0.031 * (M2p - 0.8 * M2p powr 1.1) * \<beta> powr 1.3
        * (1 + 8 * max (log 10 (3700 / ReD)) 0)"
    and "C_inf_C_s \<equiv>
      0.5961 + 0.0261 * \<beta>\<^sup>2 - 0.216 * \<beta> ^ 8 + 0.000521 * (10 ^ 6 * \<beta> / ReD) powr 0.7
        + (0.0188 + 0.0063 * A) * \<beta> powr 3.5
          * max ((10 ^ 6 / ReD) powr 0.3) (22.7 - 4700 * (ReD / 10 ^ 6))"
  shows "C_Reader_Harris_Gallagher D Do rho mu m taps =
     Inr (C_inf_C_s + delta_C_upstream + delta_C_downstream
          + (if D < 0.07112 then 0.011 * (0.75 - \<beta>) * max (2.8 - D / 0.0254) 0 else 0))"
  unfolding C_RHG_value [OF assms(1-7)]
  unfolding spec_C_RHG_def spec_C_inf_C_s_def spec_delta_C_upstream_def
    spec_delta_C_downstream_def spec_A_def spec_Re_D_def Let_def
    C_inf_C_s_def delta_C_upstream_def delta_C_downstream_def A_def M2p_def ReD_def \<beta>_def
  by simp

theorem C_Reader_Harris_Gallagher_terms_witness:
  "(0::real) < 0.07391 \<and> (0::real) < 0.0222 \<and> (0.0222::real) < 0.07391 \<and> (0::real) < 1.165
   \<and> (0::real) < 0.0000185 \<and> (0::real) < 0.12
   \<and> tap_lengths (Some ''flange'') 0.07391 = Inr (0.0254 / 0.07391, 0.0254 / 0.07391)
   \<and> (\<exists>c. C_Reader_Harris_Gallagher 0.07391 0.0222 1.165 0.0000185 0.12 (Some ''flange'') = Inr c)"
proof -
  have t: "tap_lengths (Some ''flange'') 0.07391 = Inr (0.0254 / 0.07391, 0.0254 / 0.07391)"
    by (simp add: tap_lengths_def)
  show ?thesis
    using C_Reader_Harris_Gallagher_terms [OF _ _ _ _ _ _ t, of "0.0222" "1.165" "0.0000185" "0.12"] t
    by simp
qed

text \<open>
  \<^bold>\<open>C5\<close>. The tap chain gives \<open>L1 = L2' = 0\<close> for \<^verbatim>\<open>'corner'\<close>, \<open>L1 = 1\<close> and
  \<open>L2' = 0.47\<close> for \<^verbatim>\<open>'D'\<close> and \<^verbatim>\<open>'D/2'\<close>, \<open>L1 = L2' = 0.0254/D\<close> for \<^verbatim>\<open>'flange'\<close>, and
  the coefficient is computed with them; for every other value of \<^verbatim>\<open>taps\<close> (any other
  string, or \<^verbatim>\<open>None\<close>) \<^verbatim>\<open>C_Reader_Harris_Gallagher\<close> raises
  \<^verbatim>\<open>Exception('Unsupported tap location')\<close>, for all valid \<open>D\<close>, \<open>Do\<close>, \<open>rho\<close>, \<open>mu\<close>, \<open>m\<close>.
\<close>

theorem taps_selection:
  fixes D Do rho mu m :: real
  assumes "0 < D" and "0 < Do" and "Do < D" and "0 < rho" and "0 < mu" and "0 < m"
  shows "tap_lengths (Some ''corner'') D = Inr (0, 0)
    \<and> tap_lengths (Some ''D'') D = Inr (1, 0.47)
    \<and> tap_lengths (Some ''D/2'') D = Inr (1, 0.47)
    \<and> tap_lengths (Some ''flange'') D = Inr (0.0254 / D, 0.0254 / D)
    \<and> C_Reader_Harris_Gallagher D Do rho mu m (Some ''corner'')
        = Inr (spec_C_RHG D Do rho mu m 0 0)
    \<and> C_Reader_Harris_Gallagher D Do rho mu m (Some ''D'')
        = Inr (spec_C_RHG D Do rho mu m 1 0.47)
    \<and> C_Reader_Harris_Gallagher D Do rho mu m (Some ''D/2'')
        = Inr (spec_C_RHG D Do rho mu m 1 0.47)
    \<and> C_Reader_Harris_Gallagher D Do rho mu m (Some ''flange'')
        = Inr (spec_C_RHG D Do rho mu m (0.0254 / D) (0.0254 / D))
    \<and> (taps \<notin> {Some ''corner'', Some ''D'', Some ''D/2'', Some ''flange''} \<longrightarrow>
         C_Reader_Harris_Gallagher D Do rho mu m taps
           = Inl (Exception (Msg ''Unsupported tap location'')))"
proof -
  have t: "tap_lengths (Some ''corner'') D = Inr (0, 0)"
    "tap_lengths (Some ''D'') D = Inr (1, 0.47)"
    "tap_lengths (Some ''D/2'') D = Inr (1, 0.47)"
    "tap_lengths (Some ''flange'') D = Inr (0.0254 / D, 0.0254 / D)"
    using assms(1) by (simp_all add: tap_lengths_def)
  have bad: "C_Reader_Harris_Gallagher D Do rho mu m taps
           = Inl (Exception (Msg ''Unsupported tap location''))"
    if "taps \<notin> {Some ''corner'', Some ''D'', Some ''D/2'', Some ''flange''}"
  proof -
    have "tap_lengths taps D = Inl (Exception (Msg ''Unsupported tap location''))"
      using that by (simp add: tap_lengths_def)
    moreover have "fdiv m (pi / 4 * D * D * rho) = Inr (m / (pi / 4 * D * D * rho))"
      using assms by simp
    moreover have "fdiv (rho * (m / (pi / 4 * D * D * rho)) * D) mu
        = Inr (rho * (m / (pi / 4 * D * D * rho)) * D / mu)"
      using assms by simp
    moreover have "fdiv Do D = Inr (Do / D)" using assms by simp
    ultimately show ?thesis
      unfolding C_Reader_Harris_Gallagher_def Let_def
      by (simp only: bindr_Inr bindr_Inl)
  qed
  show ?thesis
    using t bad C_RHG_value [OF assms t(1)] C_RHG_value [OF assms t(2)]
      C_RHG_value [OF assms t(3)] C_RHG_value [OF assms t(4)]
    by blast
qed

theorem taps_selection_witness:
  "(0::real) < 0.07391 \<and> (0::real) < 0.0222 \<and> (0.0222::real) < 0.07391 \<and> (0::real) < 1.165
   \<and> (0::real) < 0.0000185 \<and> (0::real) < 0.12
   \<and> Some ''invalid'' \<notin> {Some ''corner'', Some ''D'', Some ''D/2'', Some ''flange''}
   \<and> C_Reader_Harris_Gallagher 0.07391 0.0222 1.165 0.0000185 0.12 (Some ''invalid'')
       = Inl (Exception (Msg ''Unsupported tap location''))"
  using taps_selection [of "0.07391" "0.0222" "1.165" "0.0000185" "0.12" "Some ''invalid''"]
  by simp

subsection \<open>Venturi tube: the two interpolations clamp\<close>

lemma D_stage_low: "D \<le> 0.065 \<Longrightarrow> np_interp D D_bound_venturi_tube [a, b] = a"
  by (simp add: np_interp_def D_bound_venturi_tube_def)

lemma D_stage_high: "0.5 \<le> D \<Longrightarrow> np_interp D D_bound_venturi_tube [a, b] = b"
  by (simp add: np_interp_def D_bound_venturi_tube_def)

lemma D_stage_mid:
  assumes "0.065 \<le> D" and "D \<le> 0.5"
  shows "np_interp D D_bound_venturi_tube [a, b] = a + (b - a) * (D - 0.065) / (0.5 - 0.065)"
proof (cases "D < 0.5")
  case True
  then show ?thesis
    using assms by (simp add: np_interp_def D_bound_venturi_tube_def)
next
  case False
  then have D: "D = 1 / 2" using assms by simp
  show ?thesis
    unfolding D by (simp add: np_interp_def D_bound_venturi_tube_def field_simps)
qed

lemma beta_low_high: "\<beta> \<le> 0.29916 \<Longrightarrow> np_interp \<beta> venturi_tube_betas venturi_tube_dP_high = 0.164534"
  by (simp add: np_interp_def venturi_tube_betas_def venturi_tube_dP_high_def)

lemma beta_low_low: "\<beta> \<le> 0.29916 \<Longrightarrow> np_interp \<beta> venturi_tube_betas venturi_tube_dP_low = 0.089232"
  by (simp add: np_interp_def venturi_tube_betas_def venturi_tube_dP_low_def)

lemma beta_high_high: "0.74965 \<le> \<beta> \<Longrightarrow> np_interp \<beta> venturi_tube_betas venturi_tube_dP_high = 0.087648"
  by (simp add: np_interp_def venturi_tube_betas_def venturi_tube_dP_high_def)

lemma beta_high_low: "0.74965 \<le> \<beta> \<Longrightarrow> np_interp \<beta> venturi_tube_betas venturi_tube_dP_low = 0.039896"
  by (simp add: np_interp_def venturi_tube_betas_def venturi_tube_dP_low_def)


text \<open>
  \<^bold>\<open>C7\<close>. For \<open>D \<noteq> 0\<close>, \<^verbatim>\<open>dP_venturi_tube\<close> returns \<open>\<epsilon> (P1 - P2)\<close>, where \<open>\<epsilon>\<close> is the
  interpolation over \<open>[0.065, 0.5]\<close> in \<open>D\<close> between \<open>\<epsilon>\<^sub>D\<^sub>6\<^sub>5\<close> and \<open>\<epsilon>\<^sub>D\<^sub>5\<^sub>0\<^sub>0\<close>, the
  interpolations in \<open>\<beta> = Do/D\<close> of the two 46-point tables. The lookup in \<open>D\<close> clamps: for
  \<open>D \<le> 0.065\<close> it is \<open>\<epsilon>\<^sub>D\<^sub>6\<^sub>5\<close>, its value at \<open>D = 0.065\<close>, and for \<open>D \<ge> 0.5\<close> it is
  \<open>\<epsilon>\<^sub>D\<^sub>5\<^sub>0\<^sub>0\<close>, its value at \<open>D = 0.5\<close>; so the result equals that of the meter of diameter
  0.065 (0.5) with the same \<open>\<beta>\<close>. (With \<open>Do\<close> rather than \<open>\<beta>\<close> held fixed, \<open>\<beta>\<close> and with it
  \<open>\<epsilon>\<^sub>D\<^sub>6\<^sub>5\<close> change with \<open>D\<close>.) Between the bounds the lookup is linear in \<open>D\<close>. The lookup
  in \<open>\<beta>\<close> clamps as well: for \<open>\<beta> \<le> 0.29916\<close> it gives the first entries of the tables,
  for \<open>\<beta> \<ge> 0.74965\<close> the last.
\<close>

theorem dP_venturi_tube_clamps:
  fixes D Do P1 P2 :: real
  assumes "D \<noteq> 0"
  defines "\<beta> \<equiv> Do / D"
  defines "epsilon_D65 \<equiv> np_interp \<beta> venturi_tube_betas venturi_tube_dP_high"
    and "epsilon_D500 \<equiv> np_interp \<beta> venturi_tube_betas venturi_tube_dP_low"
  shows "dP_venturi_tube D Do P1 P2
           = Inr (np_interp D D_bound_venturi_tube [epsilon_D65, epsilon_D500] * (P1 - P2))
    \<and> (D \<le> 0.065 \<longrightarrow> dP_venturi_tube D Do P1 P2 = Inr (epsilon_D65 * (P1 - P2))
          \<and> dP_venturi_tube D Do P1 P2 = dP_venturi_tube 0.065 (0.065 * \<beta>) P1 P2)
    \<and> (0.5 \<le> D \<longrightarrow> dP_venturi_tube D Do P1 P2 = Inr (epsilon_D500 * (P1 - P2))
          \<and> dP_venturi_tube D Do P1 P2 = dP_venturi_tube 0.5 (0.5 * \<beta>) P1 P2)
    \<and> (0.065 \<le> D \<and> D \<le> 0.5 \<longrightarrow> dP_venturi_tube D Do P1 P2
          = Inr ((epsilon_D65 + (epsilon_D500 - epsilon_D65) * (D - 0.065) / (0.5 - 0.065))
                 * (P1 - P2)))
    \<and> (\<beta> \<le> 0.29916 \<longrightarrow> epsilon_D65 = 0.164534 \<and> epsilon_D500 = 0.089232)
    \<and> (0.74965 \<le> \<beta> \<longrightarrow> epsilon_D65 = 0.087648 \<and> epsilon_D500 = 0.039896)
    \<and> length venturi_tube_betas = 46 \<and> length venturi_tube_dP_high = 46
    \<and> length venturi_tube_dP_low = 46
    \<and> hd venturi_tube_betas = 0.29916 \<and> last venturi_tube_betas = 0.74965"
proof -
  have v: "\<And>d x. d \<noteq> 0 \<Longrightarrow> dP_venturi_tube d (d * x) P1 P2
      = Inr (np_interp d D_bound_venturi_tube
               [np_interp x venturi_tube_betas venturi_tube_dP_high,
                np_interp x venturi_tube_betas venturi_tube_dP_low] * (P1 - P2))"
    by (simp add: dP_venturi_tube_def Let_def)
  have DoD: "Do = D * \<beta>" using assms(1) by (simp add: \<beta>_def)
  have main: "dP_venturi_tube D Do P1 P2
           = Inr (np_interp D D_bound_venturi_tube [epsilon_D65, epsilon_D500] * (P1 - P2))"
    unfolding DoD using v [OF assms(1)] by (simp add: epsilon_D65_def epsilon_D500_def)
  have at65: "dP_venturi_tube 0.065 (0.065 * \<beta>) P1 P2 = Inr (epsilon_D65 * (P1 - P2))"
    using v [of "0.065" \<beta>] D_stage_low [of "0.065"]
    by (simp add: epsilon_D65_def epsilon_D500_def)
  have at500: "dP_venturi_tube 0.5 (0.5 * \<beta>) P1 P2 = Inr (epsilon_D500 * (P1 - P2))"
    using v [of "0.5" \<beta>] D_stage_high [of "0.5"]
    by (simp add: epsilon_D65_def epsilon_D500_def)
  have tables: "length venturi_tube_betas = 46" "length venturi_tube_dP_high = 46"
    "length venturi_tube_dP_low = 46"
    "hd venturi_tube_betas = 0.29916" "last venturi_tube_betas = 0.74965"
    by (simp_all add: venturi_tube_betas_def venturi_tube_dP_high_def venturi_tube_dP_low_def)
  show ?thesis
    unfolding at65 at500 tables
    using main D_stage_low [of D epsilon_D65 epsilon_D500]
      D_stage_high [of D epsilon_D65 epsilon_D500] D_stage_mid [of D epsilon_D65 epsilon_D500]
      beta_low_high [of \<beta>] beta_low_low [of \<beta>] beta_high_high [of \<beta>] beta_high_low [of \<beta>]
    unfolding epsilon_D65_def [symmetric] epsilon_D500_def [symmetric]
    by simp
qed


lemma epsilon_D65_example:
  "np_interp (0.05 / 0.07366) venturi_tube_betas venturi_tube_dP_high
     = 496519055537 / 4670044000000"
  by (simp add: np_interp_def venturi_tube_betas_def venturi_tube_dP_high_def)

lemma epsilon_D500_example:
  "np_interp (0.05 / 0.07366) venturi_tube_betas venturi_tube_dP_low
     = 236160074013 / 4670044000000"
  by (simp add: np_interp_def venturi_tube_betas_def venturi_tube_dP_low_def)

theorem dP_venturi_tube_clamps_witness:
  "dP_venturi_tube 0.05 0.01 200000 183000 = Inr (0.164534 * (200000 - 183000))
   \<and> dP_venturi_tube 0.6 0.48 200000 183000 = Inr (0.039896 * (200000 - 183000))
   \<and> dP_venturi_tube 0.07366 0.05 200000 183000 = Inr (90835709160903793 / 50786728500000)"
proof -
  have nz: "(0.05::real) \<noteq> 0" "(0.6::real) \<noteq> 0" "(0.07366::real) \<noteq> 0" by simp_all
  note small = dP_venturi_tube_clamps [OF nz(1), of "0.01" 200000 183000]
  note large = dP_venturi_tube_clamps [OF nz(2), of "0.48" 200000 183000]
  note mid = dP_venturi_tube_clamps [OF nz(3), of "0.05" 200000 183000]
  have a: "dP_venturi_tube 0.05 0.01 200000 183000 = Inr (0.164534 * (200000 - 183000))"
  proof -
    have "dP_venturi_tube 0.05 0.01 200000 183000
        = Inr (np_interp (0.01 / 0.05) venturi_tube_betas venturi_tube_dP_high * (200000 - 183000))"
      using small [THEN conjunct2, THEN conjunct1] by simp
    moreover have "np_interp (0.01 / 0.05) venturi_tube_betas venturi_tube_dP_high = 0.164534"
      using small [THEN conjunct2, THEN conjunct2, THEN conjunct2, THEN conjunct2, THEN conjunct1]
      by simp
    ultimately show ?thesis by (simp only:)
  qed
  have b: "dP_venturi_tube 0.6 0.48 200000 183000 = Inr (0.039896 * (200000 - 183000))"
  proof -
    have "dP_venturi_tube 0.6 0.48 200000 183000
        = Inr (np_interp (0.48 / 0.6) venturi_tube_betas venturi_tube_dP_low * (200000 - 183000))"
      using large [THEN conjunct2, THEN conjunct2, THEN conjunct1] by simp
    moreover have "np_interp (0.48 / 0.6) venturi_tube_betas venturi_tube_dP_low = 0.039896"
      using large [THEN conjunct2, THEN conjunct2, THEN conjunct2, THEN conjunct2, THEN conjunct2,
          THEN conjunct1]
      by simp
    ultimately show ?thesis by (simp only:)
  qed
  have c: "dP_venturi_tube 0.07366 0.05 200000 183000
      = Inr (90835709160903793 / 50786728500000)"
    using mid [THEN conjunct2, THEN conjunct2, THEN conjunct2, THEN conjunct1]
    unfolding epsilon_D65_example epsilon_D500_example
    by simp
  show ?thesis using a b c by (simp only: simp_thms)
qed

subsection \<open>Enclosures of \<open>\<pi>\<close>\<close>

lemma arctan_partial_sums:
  fixes x :: real
  assumes x0: "0 \<le> x" and x1: "x \<le> 1"
  shows "(\<Sum>i<2 * n. (- 1) ^ i * (1 / real (i * 2 + 1) * x ^ (i * 2 + 1))) \<le> arctan x"
    and "arctan x \<le> (\<Sum>i<2 * n + 1. (- 1) ^ i * (1 / real (i * 2 + 1) * x ^ (i * 2 + 1)))"
proof -
  let ?a = "\<lambda>i. 1 / real (i * 2 + 1) * x ^ (i * 2 + 1)"
  have abs: "\<bar>x\<bar> \<le> 1" using x0 x1 by simp
  have zero: "?a \<longlonglongrightarrow> 0" by (rule zeroseq_arctan_series [OF abs])
  have pos: "0 \<le> ?a i" for i using x0 by simp
  have mono: "?a (Suc i) \<le> ?a i" for i
  proof -
    have "x ^ (Suc i * 2 + 1) \<le> x ^ (i * 2 + 1)"
      by (rule power_decreasing) (use x0 x1 in auto)
    moreover have "1 / real (Suc i * 2 + 1) \<le> 1 / real (i * 2 + 1)"
      by (simp add: field_simps)
    ultimately show ?thesis
      by (intro mult_mono) (use x0 in auto)
  qed
  have eq: "arctan x = (\<Sum>i. (- 1) ^ i * ?a i)" by (rule arctan_series [OF abs])
  show "(\<Sum>i<2 * n. (- 1) ^ i * ?a i) \<le> arctan x"
    unfolding eq by (rule summable_Leibniz'(2) [OF zero pos mono])
  show "arctan x \<le> (\<Sum>i<2 * n + 1. (- 1) ^ i * ?a i)"
    unfolding eq by (rule summable_Leibniz'(4) [OF zero pos mono])
qed

lemma pi_bounds: "3.14159265358979 \<le> pi" "pi \<le> 3.14159265358980"
proof -
  have m: "pi = 16 * arctan (1 / 5) - 4 * arctan (1 / 239)"
    using machin by simp
  have l5: "(\<Sum>i<2 * 5. (- 1) ^ i * (1 / real (i * 2 + 1) * (1 / 5) ^ (i * 2 + 1))) \<le> arctan (1 / 5 :: real)"
    by (rule arctan_partial_sums) simp_all
  have u5: "arctan (1 / 5 :: real) \<le> (\<Sum>i<2 * 5 + 1. (- 1) ^ i * (1 / real (i * 2 + 1) * (1 / 5) ^ (i * 2 + 1)))"
    by (rule arctan_partial_sums) simp_all
  have l239: "(\<Sum>i<2 * 2. (- 1) ^ i * (1 / real (i * 2 + 1) * (1 / 239) ^ (i * 2 + 1))) \<le> arctan (1 / 239 :: real)"
    by (rule arctan_partial_sums) simp_all
  have u239: "arctan (1 / 239 :: real) \<le> (\<Sum>i<2 * 2 + 1. (- 1) ^ i * (1 / real (i * 2 + 1) * (1 / 239) ^ (i * 2 + 1)))"
    by (rule arctan_partial_sums) simp_all
  have l5': "0.1973955598498806 \<le> arctan (1 / 5 :: real)"
    using l5 by (simp add: lessThan_nat_numeral lessThan_Suc power_divide)
  have u5': "arctan (1 / 5 :: real) \<le> 0.1973955598498808"
    using u5 by (simp add: lessThan_nat_numeral lessThan_Suc power_divide)
  have l239': "0.0041840760020747 \<le> arctan (1 / 239 :: real)"
    using l239 by (simp add: lessThan_nat_numeral lessThan_Suc power_divide)
  have u239': "arctan (1 / 239 :: real) \<le> 0.0041840760020748"
    using u239 by (simp add: lessThan_nat_numeral lessThan_Suc power_divide)
  show "3.14159265358979 \<le> pi" unfolding m using l5' u239' by simp
  show "pi \<le> 3.14159265358980" unfolding m using u5' l239' by simp
qed

subsection \<open>The orifice discharge equation\<close>

lemma discharge_interval:
  fixes p s1 s2 a c e :: real
  assumes p: "pl \<le> p" "p \<le> ph" "0 \<le> pl"
    and s1: "s1l \<le> s1" "s1 \<le> s1h" "0 \<le> s1l"
    and s2: "s2l \<le> s2" "s2 \<le> s2h" "0 < s2l"
    and nn: "0 \<le> a" "0 \<le> c" "0 \<le> e"
  shows "(pl * a / 4) * c * s1l / s2h * e \<le> (p * a / 4) * c * s1 / s2 * e"
    and "(p * a / 4) * c * s1 / s2 * e \<le> (ph * a / 4) * c * s1h / s2l * e"
proof -
  have n1: "(pl * a / 4) * c * s1l \<le> (p * a / 4) * c * s1"
    using p s1 nn by (intro mult_mono divide_right_mono mult_nonneg_nonneg) auto
  have n2: "(p * a / 4) * c * s1 \<le> (ph * a / 4) * c * s1h"
    using p s1 nn by (intro mult_mono divide_right_mono mult_nonneg_nonneg) auto
  have z1: "0 \<le> (p * a / 4) * c * s1" using p s1 nn by (intro mult_nonneg_nonneg divide_nonneg_nonneg) auto
  have z2: "0 \<le> (ph * a / 4) * c * s1h" using p s1 nn by (intro mult_nonneg_nonneg divide_nonneg_nonneg) auto
  have "(pl * a / 4) * c * s1l / s2h \<le> (p * a / 4) * c * s1 / s2"
    using n1 z1 s2 by (intro frac_le) auto
  then show "(pl * a / 4) * c * s1l / s2h * e \<le> (p * a / 4) * c * s1 / s2 * e"
    using nn by (intro mult_right_mono) auto
  have "(p * a / 4) * c * s1 / s2 \<le> (ph * a / 4) * c * s1h / s2l"
    using n2 z2 s2 by (intro frac_le) auto
  then show "(p * a / 4) * c * s1 / s2 * e \<le> (ph * a / 4) * c * s1h / s2l * e"
    using nn by (intro mult_right_mono) auto
qed

lemma sqrt_bounds_example1:
  "48.2617861252 \<le> sqrt (2 * (100000 - 99000) * 1.1646)"
  "sqrt (2 * (100000 - 99000) * 1.1646) \<le> 48.2617861253"
  by (rule real_le_rsqrt, simp add: power2_eq_square) (rule real_le_lsqrt, simp_all add: power2_eq_square)

lemma sqrt_bounds_example2:
  "0.9959197095 \<le> sqrt (1 - (0.0222 / 0.0739) ^ 4)"
  "sqrt (1 - (0.0222 / 0.0739) ^ 4) \<le> 0.9959197096"
  by (rule real_le_rsqrt, simp add: power2_eq_square power_divide) (rule real_le_lsqrt, simp_all add: power2_eq_square power_divide)


lemma orifice_discharge_value:
  assumes "D \<noteq> 0" "(Do / D) ^ 4 < 1" "0 \<le> (P1 - P2) * rho"
  shows "orifice_discharge D Do P1 P2 rho C expansibility =
     Inr ((pi * Do\<^sup>2 / 4) * C * sqrt (2 * (P1 - P2) * rho) / sqrt (1 - (Do / D) ^ 4)
          * (case expansibility of None \<Rightarrow> 1 | Some e \<Rightarrow> e))"
proof -
  have "2 * (P1 - P2) * rho = 2 * ((P1 - P2) * rho)" by simp
  with assms(3) have nn: "0 \<le> 2 * (P1 - P2) * rho" by linarith
  have r1: "fpow (2 * (P1 - P2) * rho) 0.5 = Inr (sqrt (2 * (P1 - P2) * rho))"
    unfolding half by (rule fpow_sqrt [OF nn])
  have "0 \<le> 1.0 - (Do / D) ^ 4" using assms(2) by simp
  then have r2: "fpow (1.0 - (Do / D) ^ 4) 0.5 = Inr (sqrt (1.0 - (Do / D) ^ 4))"
    unfolding half by (rule fpow_sqrt)
  have nz: "sqrt (1 - (Do / D) ^ 4) \<noteq> 0"
    using assms(2) by simp
  show ?thesis
    unfolding orifice_discharge_def Let_def
    using nz by (simp only: fdiv_ok [OF assms(1)] bindr_Inr r1 r2)
      (simp add: power2_eq_square split: option.splits)
qed

lemma orifice_discharge_no_exception:
  "orifice_discharge D Do P1 P2 rho C expansibility \<noteq> Inl (Exception a)"
  unfolding orifice_discharge_def Let_def
  by (intro bindr_no_exception fdiv_no_exception fpow_no_exception) simp

lemma orifice_discharge_example:
  "\<bar>(pi * 0.0222\<^sup>2 / 4) * 0.5988 * sqrt (2 * (100000 - 99000) * 1.1646)
        / sqrt (1 - (0.0222 / 0.0739) ^ 4) * 0.9975 - 0.01120390943807026\<bar>
     \<le> 0.01120390943807026 / 10 ^ 9"
proof -
  let ?v = "(pi * 0.0222\<^sup>2 / 4) * 0.5988 * sqrt (2 * (100000 - 99000) * 1.1646)
        / sqrt (1 - (0.0222 / 0.0739) ^ 4) * 0.9975"
  have lo: "(3.14159265358979 * 0.0222\<^sup>2 / 4) * 0.5988 * 48.2617861252 / 0.9959197096 * 0.9975 \<le> ?v"
    by (rule discharge_interval(1) [OF pi_bounds _ sqrt_bounds_example1 _ sqrt_bounds_example2]) simp_all
  have hi: "?v \<le> (3.14159265358980 * 0.0222\<^sup>2 / 4) * 0.5988 * 48.2617861253 / 0.9959197095 * 0.9975"
    by (rule discharge_interval(2) [OF pi_bounds _ sqrt_bounds_example1 _ sqrt_bounds_example2]) simp_all
  have "0.01120390943807026 - 0.01120390943807026 / 10 ^ 9
      \<le> (3.14159265358979 * 0.0222\<^sup>2 / 4) * 0.5988 * 48.2617861252 / 0.9959197096 * (0.9975::real)"
    by (simp add: power2_eq_square)
  moreover have "(3.14159265358980 * 0.0222\<^sup>2 / 4) * 0.5988 * 48.2617861253 / 0.9959197095 * (0.9975::real)
      \<le> 0.01120390943807026 + 0.01120390943807026 / 10 ^ 9"
    by (simp add: power2_eq_square)
  ultimately show ?thesis using lo hi by linarith
qed


text \<open>
  \<^bold>\<open>C6\<close>. Where the arithmetic is defined (\<open>D \<noteq> 0\<close>, \<open>(Do/D)\<^sup>4 < 1\<close>,
  \<open>(P1 - P2) rho \<ge> 0\<close>), \<^verbatim>\<open>orifice_discharge\<close> returns
  \<open>(\<pi> Do\<^sup>2/4) C sqrt (2 (P1 - P2) rho) / sqrt (1 - (Do/D)\<^sup>4) \<epsilon>\<close>, with \<open>\<epsilon> = 1.0\<close> when the
  expansibility is left out; \<open>C\<close> and \<open>\<epsilon>\<close> are not looked at. On no input at all does it
  raise an exception of its own: it has no validation. For \<open>D = 0.0739\<close>, \<open>Do = 0.0222\<close>,
  \<open>P1 = 1e5\<close>, \<open>P2 = 9.9e4\<close>, \<open>rho = 1.1646\<close>, \<open>C = 0.5988\<close>, \<open>\<epsilon> = 0.9975\<close> the value is
  within a relative \<open>1e-9\<close> of \<open>0.01120390943807026\<close>.
\<close>

theorem orifice_discharge_formula:
  assumes "D \<noteq> 0" and "(Do / D) ^ 4 < 1" and "0 \<le> (P1 - P2) * rho"
  shows "orifice_discharge D Do P1 P2 rho C (Some e)
           = Inr ((pi * Do\<^sup>2 / 4) * C * sqrt (2 * (P1 - P2) * rho) / sqrt (1 - (Do / D) ^ 4) * e)
    \<and> orifice_discharge D Do P1 P2 rho C None
           = Inr ((pi * Do\<^sup>2 / 4) * C * sqrt (2 * (P1 - P2) * rho) / sqrt (1 - (Do / D) ^ 4) * 1.0)
    \<and> orifice_discharge D' Do' P1' P2' rho' C' e' \<noteq> Inl (Exception a)
    \<and> (\<exists>v. orifice_discharge 0.0739 0.0222 100000 99000 1.1646 0.5988 (Some 0.9975) = Inr v
           \<and> \<bar>v - 0.01120390943807026\<bar> \<le> 0.01120390943807026 / 10 ^ 9)"
proof -
  have ex: "orifice_discharge 0.0739 0.0222 100000 99000 1.1646 0.5988 (Some 0.9975)
      = Inr ((pi * 0.0222\<^sup>2 / 4) * 0.5988 * sqrt (2 * (100000 - 99000) * 1.1646)
        / sqrt (1 - (0.0222 / 0.0739) ^ 4) * 0.9975)"
    using orifice_discharge_value [of "0.0739" "0.0222" 100000 99000 "1.1646" "0.5988" "Some 0.9975"]
    by (simp add: power_divide)
  show ?thesis
    using orifice_discharge_value [OF assms, of C "Some e"]
      orifice_discharge_value [OF assms, of C None]
      orifice_discharge_no_exception [of D' Do' P1' P2' rho' C' e' a]
      orifice_discharge_example
    unfolding ex by simp
qed

theorem orifice_discharge_formula_witness:
  "(0.0739::real) \<noteq> 0 \<and> ((0.0222::real) / 0.0739) ^ 4 < 1 \<and> (0::real) \<le> (100000 - 99000) * 1.1646
   \<and> orifice_discharge 0.0739 0.0222 100000 99000 1.1646 0.5988 (Some 0.9975)
     = Inr ((pi * 0.0222\<^sup>2 / 4) * 0.5988 * sqrt (2 * (100000 - 99000) * 1.1646)
        / sqrt (1 - (0.0222 / 0.0739) ^ 4) * 0.9975)"
  using orifice_discharge_formula [of "0.0739" "0.0222" 100000 99000 "1.1646" "0.5988" "0.9975"]
  by (simp add: power_divide)

subsection \<open>Wedge meter discharge coefficient\<close>

lemma cos_taylor:
  fixes x :: real
  assumes "0 < x" and "0 < n"
  shows "\<bar>cos x - (\<Sum>m<n. cos_coeff m * x ^ m)\<bar> \<le> x ^ n / fact n"
proof -
  obtain t where "cos x = (\<Sum>m<n. cos_coeff m * x ^ m) + (cos (t + 1 / 2 * real n * pi) / fact n) * x ^ n"
    using Maclaurin_cos_expansion2 [OF assms] by blast
  then have "\<bar>cos x - (\<Sum>m<n. cos_coeff m * x ^ m)\<bar> = \<bar>cos (t + 1 / 2 * real n * pi)\<bar> * (x ^ n / fact n)"
    using assms(1) by (simp add: abs_mult)
  also have "\<dots> \<le> 1 * (x ^ n / fact n)"
    by (rule mult_right_mono) (use assms(1) in auto)
  finally show ?thesis by simp
qed

lemma cos_poly_sum: "(\<Sum>m<14. cos_coeff m * x ^ m) = cos_poly (x\<^sup>2)"
  by (simp add: lessThan_nat_numeral lessThan_Suc cos_coeff_def fact_numeral cos_poly_def power2_eq_square algebra_simps)
   (simp add: power_def)


lemma cos_remainder_small:
  fixes x :: real
  assumes "0 \<le> x" and "x \<le> 1.16"
  shows "x ^ 14 / fact 14 \<le> 1 / 10 ^ 10"
proof -
  have "x ^ 14 \<le> 1.16 ^ 14" by (rule power_mono [OF assms(2,1)])
  also have "\<dots> \<le> (8::real)" by (simp add: power_divide)
  finally have "x ^ 14 / fact 14 \<le> 8 / fact 14" by (simp add: divide_right_mono)
  also have "\<dots> \<le> (1::real) / 10 ^ 10" by (simp add: fact_numeral)
  finally show ?thesis .
qed

lemma cos_poly_lo: "0.4 + 1 / 10 ^ 10 \<le> cos_poly (1.15927948\<^sup>2)"
  by (simp add: cos_poly_def power2_eq_square)

lemma cos_poly_hi: "cos_poly (1.159279481\<^sup>2) + 1 / 10 ^ 10 \<le> 0.4"
  by (simp add: cos_poly_def power2_eq_square)


lemma close_ge: "\<bar>c - p\<bar> \<le> e \<Longrightarrow> y + e \<le> p \<Longrightarrow> y \<le> c" for c p e y :: real
  by linarith

lemma close_le: "\<bar>c - p\<bar> \<le> e \<Longrightarrow> p + e \<le> y \<Longrightarrow> c \<le> y" for c p e y :: real
  by linarith

lemma affine_abs_bound:
  fixes a b q ql qh L e :: real
  assumes "ql \<le> q" and "q \<le> qh" and "0 \<le> b"
    and "L - e \<le> a + b * (1 - qh)" and "a + b * (1 - ql) \<le> L + e"
  shows "\<bar>a + b * (1 - q) - L\<bar> \<le> e"
proof -
  have "b * (1 - qh) \<le> b * (1 - q)" "b * (1 - q) \<le> b * (1 - ql)"
    using assms(1-3) by (simp_all add: mult_left_mono)
  then show ?thesis using assms(4,5) by linarith
qed

lemma arccos_example: "1.15927948 \<le> arccos 0.4" "arccos 0.4 \<le> 1.159279481"
proof -
  have pi3: "3 \<le> pi" using pi_bounds(1) by simp
  have t_lo: "\<bar>cos 1.15927948 - cos_poly (1.15927948\<^sup>2)\<bar> \<le> 1 / 10 ^ 10"
    by (rule order_trans [OF cos_taylor [of "1.15927948" 14, unfolded cos_poly_sum]
          cos_remainder_small]) simp_all
  have t_hi: "\<bar>cos 1.159279481 - cos_poly (1.159279481\<^sup>2)\<bar> \<le> 1 / 10 ^ 10"
    by (rule order_trans [OF cos_taylor [of "1.159279481" 14, unfolded cos_poly_sum]
          cos_remainder_small]) simp_all
  have c_lo: "(0.4::real) \<le> cos 1.15927948" by (rule close_ge [OF t_lo cos_poly_lo])
  have c_hi: "cos 1.159279481 \<le> (0.4::real)" by (rule close_le [OF t_hi cos_poly_hi])
  have "arccos (cos 1.15927948) \<le> arccos 0.4"
    by (rule arccos_le_arccos) (use c_lo in auto)
  moreover have "arccos (cos 1.15927948) = 1.15927948"
    by (rule arccos_cos) (use pi3 in auto)
  ultimately show "1.15927948 \<le> arccos 0.4" by simp
  have "arccos 0.4 \<le> arccos (cos 1.159279481)"
    by (rule arccos_le_arccos) (use c_hi in auto)
  moreover have "arccos (cos 1.159279481) = 1.159279481"
    by (rule arccos_cos) (use pi3 in auto)
  ultimately show "arccos 0.4 \<le> 1.159279481" by simp
qed

lemma sqrt_021: "0.4582575694 \<le> sqrt 0.21" "sqrt 0.21 \<le> 0.4582575695"
  by (rule real_le_rsqrt, simp add: power2_eq_square) (rule real_le_lsqrt, simp_all add: power2_eq_square)

lemma wedge_example_ratio:
  "diameter_ratio_wedge_meter 0.1524 (0.3 * 0.1524)
     = Inr (sqrt (1 / pi * (arccos 0.4 - 0.8 * sqrt 0.21)))"
proof -
  have h: "fdiv (0.3 * 0.1524) 0.1524 = Inr 0.3" by simp
  have a: "facos (1.0 - 2.0 * 0.3) = Inr (arccos 0.4)" by (simp add: facos_def)
  have s: "fpow (0.3 - 0.3 * 0.3) 0.5 = Inr (sqrt 0.21)"
    using fpow_sqrt [of "0.21"] by simp
  have t4: "0 \<le> arccos 0.4 - 0.8 * sqrt 0.21" using arccos_example(1) sqrt_021(2) by simp
  have "0 \<le> 1 / pi * (arccos 0.4 - 0.8 * sqrt 0.21)"
    using t4 by (intro mult_nonneg_nonneg) auto
  then have r: "fpow (1 / pi * (arccos 0.4 - 0.8 * sqrt 0.21)) 0.5
      = Inr (sqrt (1 / pi * (arccos 0.4 - 0.8 * sqrt 0.21)))"
    unfolding half by (rule fpow_sqrt)
  have e: "arccos 0.4 - 2.0 * (1.0 - 2.0 * 0.3) * sqrt 0.21 = arccos 0.4 - 0.8 * sqrt 0.21"
    by simp
  show ?thesis
    unfolding diameter_ratio_wedge_meter_def Let_def
    by (simp only: h bindr_Inr a s e r)
qed

lemma wedge_example_value:
  "\<bar>0.5433 + 0.2453 * (1 - 1 / pi * (arccos 0.4 - 0.8 * sqrt 0.21)) - 0.7267069372687651\<bar>
     \<le> 1 / 10 ^ 9"
proof -
  let ?t = "arccos 0.4 - 0.8 * sqrt 0.21"
  have t_lo: "0.7926734244 \<le> ?t" using arccos_example(1) sqrt_021(2) by simp
  have t_hi: "?t \<le> 0.79267342548" using arccos_example(2) sqrt_021(1) by simp
  have pp: "0 < pi" by simp
  have q_lo: "0.7926734244 / 3.14159265358980 \<le> ?t / pi"
    by (rule frac_le) (use t_lo pi_bounds in auto)
  have q_hi: "?t / pi \<le> 0.79267342548 / 3.14159265358979"
    by (rule frac_le) (use t_hi t_lo pi_bounds in auto)
  have n_lo: "(0.2523157875::real) \<le> 0.7926734244 / 3.14159265358980" by simp
  have n_hi: "(0.79267342548::real) / 3.14159265358979 \<le> 0.2523157880" by simp
  have q1: "0.2523157875 \<le> 1 / pi * ?t"
    using order_trans [OF n_lo q_lo] by simp
  have q2: "1 / pi * ?t \<le> 0.2523157880"
    using order_trans [OF q_hi n_hi] by simp
  show ?thesis
    by (rule affine_abs_bound [OF q1 q2]) simp_all
qed


text \<open>
  \<^bold>\<open>C8\<close>. \<^verbatim>\<open>C_wedge_meter_Miller\<close> takes \<open>\<beta>\<close> from \<^verbatim>\<open>diameter_ratio_wedge_meter\<close> (and
  fails as that function fails) and returns \<open>0.7883 + 0.107 (1 - \<beta>\<^sup>2)\<close> for
  \<open>D \<le> 0.7 \<cdot> 0.0254\<close>, \<open>0.6143 + 0.718 (1 - \<beta>\<^sup>2)\<close> for \<open>0.7 \<cdot> 0.0254 < D \<le> 1.4 \<cdot> 0.0254\<close>
  and \<open>0.5433 + 0.2453 (1 - \<beta>\<^sup>2)\<close> above, both breakpoints belonging to the lower band and
  one inch being 0.0254. For \<open>D = 0.1524\<close>, \<open>H = 0.3 \<cdot> 0.1524\<close> the value agrees with
  \<open>0.7267069372687651\<close> to within \<open>1e-9\<close>.
\<close>

theorem C_wedge_meter_Miller_piecewise:
  "C_wedge_meter_Miller D H
     = bindr (diameter_ratio_wedge_meter D H) (\<lambda>beta. Inr
         (if D \<le> 0.7 * 0.0254 then 0.7883 + 0.107 * (1 - beta\<^sup>2)
          else if D \<le> 1.4 * 0.0254 then 0.6143 + 0.718 * (1 - beta\<^sup>2)
          else 0.5433 + 0.2453 * (1 - beta\<^sup>2)))
   \<and> inch = 0.0254
   \<and> (\<exists>c. C_wedge_meter_Miller 0.1524 (0.3 * 0.1524) = Inr c
          \<and> \<bar>c - 0.7267069372687651\<bar> \<le> 1 / 10 ^ 9)"
proof -
  have general: "C_wedge_meter_Miller D H
     = bindr (diameter_ratio_wedge_meter D H) (\<lambda>beta. Inr
         (if D \<le> 0.7 * 0.0254 then 0.7883 + 0.107 * (1 - beta\<^sup>2)
          else if D \<le> 1.4 * 0.0254 then 0.6143 + 0.718 * (1 - beta\<^sup>2)
          else 0.5433 + 0.2453 * (1 - beta\<^sup>2)))" for D H
    unfolding C_wedge_meter_Miller_def inch_def power2_eq_square
    by (cases "diameter_ratio_wedge_meter D H") simp_all
  have nn: "0 \<le> 1 / pi * (arccos 0.4 - 0.8 * sqrt 0.21)"
    using arccos_example(1) sqrt_021(2) by (intro mult_nonneg_nonneg) auto
  have sq: "(sqrt (1 / pi * (arccos 0.4 - 0.8 * sqrt 0.21)))\<^sup>2
      = 1 / pi * (arccos 0.4 - 0.8 * sqrt 0.21)"
    using nn by (rule real_sqrt_pow2)
  have ex: "C_wedge_meter_Miller 0.1524 (0.3 * 0.1524)
      = Inr (0.5433 + 0.2453 * (1 - 1 / pi * (arccos 0.4 - 0.8 * sqrt 0.21)))"
    unfolding general wedge_example_ratio bindr_Inr sq by simp
  show ?thesis
    using general [of D H] wedge_example_value unfolding ex by (simp add: inch_def)
qed

end
